theory Spec2Isabelle
  imports Complex_Main "HOL-Library.Stream"
begin

section \<open>Distribution ray tracer: lights, materials, integrator, pixel driver\<close>

text \<open>
  A shallow embedding of \<^verbatim>\<open>igl/light.h\<close>, \<^verbatim>\<open>igl/material.h\<close> and
  \<^verbatim>\<open>igl/distraytrace.cpp\<close>.

  Conventions of the embedding.
  \<^item> A C++ \<^verbatim>\<open>float\<close> is a \<^typ>\<open>real\<close>: rounding, infinities and NaN are idealised
    away.  Where HOL's total division would hide a division by zero of the source, the
    theorems carry the hypothesis that excludes it.
  \<^item> A C++ \<^verbatim>\<open>int\<close> is an \<^typ>\<open>int\<close>.  The only arithmetic the modelled code
    performs on an \<^verbatim>\<open>int\<close> is the increment of a loop counter below its bound and
    \<^verbatim>\<open>depth+1\<close> under the guard \<^verbatim>\<open>depth < opts.max_depth\<close>; neither can overflow.
  \<^item> A nullable pointer is an \<^typ>\<open>'a option\<close>; \<^verbatim>\<open>nullptr\<close> is \<^const>\<open>None\<close>.
  \<^item> The run-time type tag of a \<^verbatim>\<open>Light\<close> or \<^verbatim>\<open>Material\<close> is the constructor of a
    datatype; \<^verbatim>\<open>is<T>\<close> is a test of the constructor.  Each datatype has one more
    constructor for an instance of any other subclass, so that the
    \<^verbatim>\<open>NOT_IMPLEMENTED_ERROR()\<close> branches of the source are branches of the model.
  \<^item> A failing macro is a value \<^term>\<open>Inl e\<close> of a sum type.
  \<^item> Record fields carry a short prefix of their struct (\<^verbatim>\<open>ss.dir\<close> is \<open>ss_dir\<close>),
    because \<^verbatim>\<open>x\<close>, \<^verbatim>\<open>o\<close>, \<^verbatim>\<open>dist\<close> and the like are taken in HOL.
\<close>

subsection \<open>vmath: vectors and frames\<close>

text \<open>
  Modelled from the spec: the vector library \<^verbatim>\<open>vmath/\<close> is not among the sources.
  \<^verbatim>\<open>vec3f\<close> is a triple of floats with componentwise arithmetic, \<^verbatim>\<open>frame3f\<close> an origin
  with three axes, and the frame transforms are the usual change of basis (``expressed in
  world space (frame-transformed)'').
\<close>

datatype vec3f = vec3f (vx: real) (vy: real) (vz: real)

datatype vec2f = vec2f (ux: real) (uy: real)

instantiation vec3f :: "{zero,one,plus,minus,uminus,times}"
begin

definition zero_vec3f :: vec3f where
  "zero_vec3f = vec3f 0 0 0"

definition one_vec3f :: vec3f where
  "one_vec3f = vec3f 1 1 1"

definition plus_vec3f :: "vec3f \<Rightarrow> vec3f \<Rightarrow> vec3f" where
  "plus_vec3f a b = vec3f (vx a + vx b) (vy a + vy b) (vz a + vz b)"

definition minus_vec3f :: "vec3f \<Rightarrow> vec3f \<Rightarrow> vec3f" where
  "minus_vec3f a b = vec3f (vx a - vx b) (vy a - vy b) (vz a - vz b)"

definition uminus_vec3f :: "vec3f \<Rightarrow> vec3f" where
  "uminus_vec3f a = vec3f (- vx a) (- vy a) (- vz a)"

definition times_vec3f :: "vec3f \<Rightarrow> vec3f \<Rightarrow> vec3f" where
  "times_vec3f a b = vec3f (vx a * vx b) (vy a * vy b) (vz a * vz b)"

instance ..

end

text \<open>\<^verbatim>\<open>v * a\<close> and \<^verbatim>\<open>v / a\<close> for a vector \<open>v\<close> and a float \<open>a\<close>.\<close>

definition muls :: "vec3f \<Rightarrow> real \<Rightarrow> vec3f" where
  "muls v a = vec3f (vx v * a) (vy v * a) (vz v * a)"

definition divs :: "vec3f \<Rightarrow> real \<Rightarrow> vec3f" where
  "divs v a = vec3f (vx v / a) (vy v / a) (vz v / a)"

definition zero3f :: vec3f where
  "zero3f = 0"

definition one3f :: vec3f where
  "one3f = 1"

definition z3f :: vec3f where
  "z3f = vec3f 0 0 1"

definition pif :: real where
  "pif = pi"

definition dot :: "vec3f \<Rightarrow> vec3f \<Rightarrow> real" where
  "dot a b = vx a * vx b + vy a * vy b + vz a * vz b"

definition lengthSqr :: "vec3f \<Rightarrow> real" where
  "lengthSqr a = dot a a"

definition length3 :: "vec3f \<Rightarrow> real" where
  "length3 a = sqrt (dot a a)"

definition normalize :: "vec3f \<Rightarrow> vec3f" where
  "normalize a = divs a (length3 a)"

definition cross :: "vec3f \<Rightarrow> vec3f \<Rightarrow> vec3f" where
  "cross a b = vec3f (vy a * vz b - vz a * vy b) (vz a * vx b - vx a * vz b)
                     (vx a * vy b - vy a * vx b)"

definition reflect :: "vec3f \<Rightarrow> vec3f \<Rightarrow> vec3f" where
  "reflect w n = w - muls n (2 * dot n w)"

record frame3f =
  fo :: vec3f
  fx :: vec3f
  fy :: vec3f
  fz :: vec3f

definition identity_frame3f :: frame3f where
  "identity_frame3f = \<lparr>fo = vec3f 0 0 0, fx = vec3f 1 0 0, fy = vec3f 0 1 0, fz = vec3f 0 0 1\<rparr>"

definition transform_vector :: "frame3f \<Rightarrow> vec3f \<Rightarrow> vec3f" where
  "transform_vector f v = muls (fx f) (vx v) + muls (fy f) (vy v) + muls (fz f) (vz v)"

definition transform_direction :: "frame3f \<Rightarrow> vec3f \<Rightarrow> vec3f" where
  "transform_direction f v = transform_vector f v"

definition transform_point_inverse :: "frame3f \<Rightarrow> vec3f \<Rightarrow> vec3f" where
  "transform_point_inverse f v = vec3f (dot (v - fo f) (fx f)) (dot (v - fo f) (fy f))
                                       (dot (v - fo f) (fz f))"

definition faceforward :: "frame3f \<Rightarrow> vec3f \<Rightarrow> frame3f" where
  "faceforward f d =
     (if dot (fz f) d \<le> 0 then f else f\<lparr>fx := - fx f, fy := - fy f, fz := - fz f\<rparr>)"

subsection \<open>Errors\<close>

text \<open>
  Modelled from the spec: the macros \<^verbatim>\<open>ERROR_IF_NOT\<close> and \<^verbatim>\<open>NOT_IMPLEMENTED_ERROR\<close> are
  not among the sources.  Both are fatal (``must fail fast (abort or propagate as a hard
  error)'', ``a fatal implementation error''): the function that reaches one returns no
  value.  The third error stands for \<^verbatim>\<open>cast<Quad>\<close> applied to a shape that is null or
  not a quad, after which the reads of \<^verbatim>\<open>sh->width\<close> and \<^verbatim>\<open>sh->height\<close> have no meaning.
\<close>

datatype error =
    NOT_IMPLEMENTED_ERROR
  | ERROR_IF_NOT string
  | INVALID_CAST

subsection \<open>light.h: the light model\<close>

text \<open>
  Modelled from the spec: \<^verbatim>\<open>shape.h\<close> and \<^verbatim>\<open>texture.h\<close> are not among the sources.  Of a
  shape the lights read only whether it is a \<^verbatim>\<open>Quad\<close> and, then, its width and height; of
  a texture only whether the pointer is null.
\<close>

datatype Shape = Quad (width: real) (height: real) | OtherShape

datatype Texture = Texture (image: "vec3f list list")

datatype Light =
    PointLight (frame: frame3f) (intensity: vec3f)
  | DirectionalLight (frame: frame3f) (intensity: vec3f)
  | AreaLight (frame: frame3f) (intensity: vec3f) (shape: "Shape option") (shadow_samples: int)
  | EnvLight (frame: frame3f) (intensity: vec3f) (envmap: "Texture option") (hemisphere: bool)
      (shadow_samples: int) (importance_sampling: bool)
  | OtherLight (frame: frame3f)

text \<open>\<^verbatim>\<open>light_shadow_nsamples\<close>: the requested number of shadow rays.\<close>

fun light_shadow_nsamples :: "Light \<Rightarrow> int" where
  "light_shadow_nsamples (AreaLight f i s n) = n"
| "light_shadow_nsamples (EnvLight f i e h n b) = n"
| "light_shadow_nsamples _ = 1"

record ShadowSample =
  ss_radiance :: vec3f
  ss_dir :: vec3f
  ss_dist :: real
  ss_pdf :: real

text \<open>
  \<^verbatim>\<open>light_shadow_sample\<close>: shadow ray and radiance for the light centre.  The constant
  \<^verbatim>\<open>ray3f::rayinf\<close> is not among the sources and is the parameter \<open>rayinf\<close>.  The source
  fills the sample in the light's frame and turns its direction to world space in the
  last statement.
\<close>

definition light_shadow_sample :: "real \<Rightarrow> Light \<Rightarrow> vec3f \<Rightarrow> error + ShadowSample" where
  "light_shadow_sample rayinf light p =
     (let pl = transform_point_inverse (frame light) p in
      case (case light of
              PointLight f i \<Rightarrow>
                Inr \<lparr>ss_radiance = divs i (lengthSqr pl), ss_dir = normalize (- pl),
                     ss_dist = length3 pl, ss_pdf = 1\<rparr>
            | DirectionalLight f i \<Rightarrow>
                Inr \<lparr>ss_radiance = i, ss_dir = - z3f, ss_dist = rayinf, ss_pdf = 1\<rparr>
            | AreaLight f i s n \<Rightarrow>
                Inr \<lparr>ss_radiance = divs i (lengthSqr pl), ss_dir = normalize (- pl),
                     ss_dist = length3 pl, ss_pdf = 1\<rparr>
            | EnvLight f i e h n b \<Rightarrow>
                Inr \<lparr>ss_radiance = muls i pif, ss_dir = normalize (- pl),
                     ss_dist = rayinf, ss_pdf = 1\<rparr>
            | OtherLight f \<Rightarrow> Inl NOT_IMPLEMENTED_ERROR) of
        Inl e \<Rightarrow> Inl e
      | Inr ss \<Rightarrow> Inr (ss\<lparr>ss_dir := transform_direction (frame light) (ss_dir ss)\<rparr>))"

text \<open>
  \<^verbatim>\<open>rand_light_shadow_sample\<close>: the soft-shadow sample.  \<^verbatim>\<open>cast<Quad>\<close> is applied to the
  shape pointer without a test; the model returns \<^const>\<open>INVALID_CAST\<close> where the pointer
  is null or the shape no quad.  \<^verbatim>\<open>transform_vector(identity_frame3f, shift)\<close> is kept as
  the source has it.
\<close>

definition rand_light_shadow_sample ::
  "real \<Rightarrow> Light \<Rightarrow> vec3f \<Rightarrow> real \<Rightarrow> real \<Rightarrow> error + ShadowSample" where
  "rand_light_shadow_sample rayinf light p u_rand v_rand =
     (case light of
        AreaLight f i s n \<Rightarrow>
          (case s of
             Some (Quad w h) \<Rightarrow>
               (let u = (0.5 - u_rand) * w;
                    v = (0.5 - v_rand) * h;
                    shift = transform_vector identity_frame3f (vec3f u v 0);
                    rand_point = f\<lparr>fo := fo f + shift\<rparr>;
                    pl = transform_point_inverse rand_point p;
                    dir = normalize (- pl);
                    radiance = muls (divs i (lengthSqr pl)) (dot (vec3f 0 0 1) (- dir))
                in Inr \<lparr>ss_radiance = radiance,
                        ss_dir = transform_direction rand_point dir,
                        ss_dist = length3 pl,
                        ss_pdf = 1 / (w * h)\<rparr>)
           | _ \<Rightarrow> Inl INVALID_CAST)
      | _ \<Rightarrow> light_shadow_sample rayinf light p)"

text \<open>\<^verbatim>\<open>light_sample_background\<close>: only an environment light has a background.\<close>

definition light_sample_background :: "Light \<Rightarrow> vec3f \<Rightarrow> vec3f" where
  "light_sample_background light wo =
     (case light of EnvLight f i e h n b \<Rightarrow> i | _ \<Rightarrow> zero3f)"

subsection \<open>material.h: the material model\<close>

datatype Material =
    Lambert (normal_texture: "Texture option") (diffuse: vec3f)
      (diffuse_texture: "Texture option")
  | Phong (normal_texture: "Texture option") (diffuse: vec3f) (specular: vec3f)
      (exponent: real) (reflection: vec3f) (blur_size: real)
      (diffuse_texture: "Texture option") (specular_texture: "Texture option")
      (exponent_texture: "Texture option") (reflection_texture: "Texture option")
      (use_reflected: bool)
  | LambertEmission (normal_texture: "Texture option") (emission: vec3f) (diffuse: vec3f)
      (emission_texture: "Texture option") (diffuse_texture: "Texture option")
  | OtherMaterial (normal_texture: "Texture option")

text \<open>\<^verbatim>\<open>material_has_textures\<close>: a pointer converts to \<^verbatim>\<open>true\<close> iff it is not null.\<close>

fun material_has_textures :: "Material \<Rightarrow> error + bool" where
  "material_has_textures (Lambert nt kd dt) = Inr (dt \<noteq> None)"
| "material_has_textures (Phong nt kd ks ex kr bl dt st et rt ur) =
     Inr (dt \<noteq> None \<or> st \<noteq> None \<or> et \<noteq> None \<or> rt \<noteq> None)"
| "material_has_textures (LambertEmission nt ke kd emt dt) = Inr (dt \<noteq> None \<or> emt \<noteq> None)"
| "material_has_textures (OtherMaterial nt) = Inl NOT_IMPLEMENTED_ERROR"

text \<open>
  \<^verbatim>\<open>ERROR_IF_NOT(not material_has_textures(material), msg)\<close>, the first statement of every
  evaluation routine.  Evaluating the condition can itself reach
  \<^verbatim>\<open>NOT_IMPLEMENTED_ERROR()\<close>.
\<close>

definition ERROR_IF_NOT_no_textures :: "Material \<Rightarrow> string \<Rightarrow> error + unit" where
  "ERROR_IF_NOT_no_textures material msg =
     (case material_has_textures material of
        Inl e \<Rightarrow> Inl e
      | Inr b \<Rightarrow> if \<not> b then Inr () else Inl (ERROR_IF_NOT msg))"

text \<open>\<^verbatim>\<open>material_shading_frame\<close>: the shading frame is returned unperturbed.\<close>

definition material_shading_frame :: "Material \<Rightarrow> frame3f \<Rightarrow> vec2f \<Rightarrow> frame3f" where
  "material_shading_frame material fr texcoord = fr"

text \<open>
  \<^verbatim>\<open>material_shading_textures\<close>: a fresh instance of the same variant (every pointer
  \<^verbatim>\<open>nullptr\<close> by the default member initialisers) that receives the coefficients of the
  argument.
\<close>

fun material_shading_textures :: "Material \<Rightarrow> vec2f \<Rightarrow> error + Material" where
  "material_shading_textures (Lambert nt kd dt) texcoord = Inr (Lambert None kd None)"
| "material_shading_textures (Phong nt kd ks ex kr bl dt st et rt ur) texcoord =
     Inr (Phong None kd ks ex kr bl None None None None ur)"
| "material_shading_textures (LambertEmission nt ke kd emt dt) texcoord =
     Inr (LambertEmission None ke kd None None)"
| "material_shading_textures (OtherMaterial nt) texcoord = Inl NOT_IMPLEMENTED_ERROR"

text \<open>\<^verbatim>\<open>material_diffuse_albedo\<close>: the material colour.\<close>

definition material_diffuse_albedo :: "Material \<Rightarrow> error + vec3f" where
  "material_diffuse_albedo material =
     (case ERROR_IF_NOT_no_textures material ''cannot support textures'' of
        Inl e \<Rightarrow> Inl e
      | Inr _ \<Rightarrow>
          (case material of
             Lambert nt kd dt \<Rightarrow> Inr kd
           | Phong nt kd ks ex kr bl dt st et rt ur \<Rightarrow> Inr kd
           | LambertEmission nt ke kd emt dt \<Rightarrow> Inr kd
           | OtherMaterial nt \<Rightarrow> Inl NOT_IMPLEMENTED_ERROR))"

text \<open>\<^verbatim>\<open>material_emission\<close>: the emission of the material towards \<open>wo\<close>.\<close>

definition material_emission :: "Material \<Rightarrow> frame3f \<Rightarrow> vec3f \<Rightarrow> error + vec3f" where
  "material_emission material fr wo =
     (case ERROR_IF_NOT_no_textures material ''cannot support textures'' of
        Inl e \<Rightarrow> Inl e
      | Inr _ \<Rightarrow>
          (case material of
             LambertEmission nt ke kd emt dt \<Rightarrow>
               if dot wo (fz fr) \<le> 0 then Inr zero3f else Inr ke
           | _ \<Rightarrow> Inr zero3f))"

text \<open>
  \<^verbatim>\<open>pow(x, e)\<close> at a base \<open>x \<ge> 0\<close>, the only bases the source passes
  (\<^verbatim>\<open>max(..., 0.0f)\<close>): \<^verbatim>\<open>pow(x, 0)\<close> is 1, also at \<open>x = 0\<close>.
\<close>

definition powf :: "real \<Rightarrow> real \<Rightarrow> real" where
  "powf b e = (if e = 0 then 1 else b powr e)"

text \<open>\<^verbatim>\<open>material_brdfcos\<close>: the product of BRDF and cosine.\<close>

definition material_brdfcos :: "Material \<Rightarrow> frame3f \<Rightarrow> vec3f \<Rightarrow> vec3f \<Rightarrow> error + vec3f" where
  "material_brdfcos material fr wi wo =
     (case ERROR_IF_NOT_no_textures material ''cannot support textures'' of
        Inl e \<Rightarrow> Inl e
      | Inr _ \<Rightarrow>
          (case material of
             Lambert nt kd dt \<Rightarrow>
               if dot wi (fz fr) \<le> 0 \<or> dot wo (fz fr) \<le> 0 then Inr zero3f
               else Inr (divs (muls kd \<bar>dot wi (fz fr)\<bar>) pif)
           | Phong nt kd ks ex kr bl dt st et rt ur \<Rightarrow>
               if dot wi (fz fr) \<le> 0 \<or> dot wo (fz fr) \<le> 0 then Inr zero3f
               else if ur then
                 (let wr = reflect (- wi) (fz fr) in
                  Inr (muls (divs kd pif
                         + divs (muls (muls ks (ex + 8)) (powf (max (dot wo wr) 0) ex)) (8 * pif))
                        \<bar>dot wi (fz fr)\<bar>))
               else
                 (let wh = normalize (wi + wo) in
                  Inr (muls (divs kd pif
                         + divs (muls (muls ks (ex + 8)) (powf (max (dot (fz fr) wh) 0) ex))
                             (8 * pif))
                        \<bar>dot wi (fz fr)\<bar>))
           | LambertEmission nt ke kd emt dt \<Rightarrow>
               if dot wi (fz fr) \<le> 0 \<or> dot wo (fz fr) \<le> 0 then Inr zero3f
               else Inr (divs (muls kd \<bar>dot wi (fz fr)\<bar>) pif)
           | OtherMaterial nt \<Rightarrow> Inl NOT_IMPLEMENTED_ERROR))"

text \<open>\<^verbatim>\<open>material_display_color\<close>: the colour for interactive drawing; it has no guard.\<close>

definition material_display_color :: "Material \<Rightarrow> error + vec3f" where
  "material_display_color material =
     (case material of
        Lambert nt kd dt \<Rightarrow> Inr kd
      | Phong nt kd ks ex kr bl dt st et rt ur \<Rightarrow> Inr kd
      | LambertEmission nt ke kd emt dt \<Rightarrow> Inr ke
      | OtherMaterial nt \<Rightarrow> Inl NOT_IMPLEMENTED_ERROR)"

record BrdfSample =
  bs_brdfcos :: vec3f
  bs_wi :: vec3f
  bs_pdf :: real

text \<open>\<^verbatim>\<open>BrdfSample()\<close>, the default member initialisers.\<close>

definition BrdfSample_default :: BrdfSample where
  "BrdfSample_default = \<lparr>bs_brdfcos = zero3f, bs_wi = zero3f, bs_pdf = 1\<rparr>"

text \<open>\<^verbatim>\<open>material_sample_reflection\<close>: colour and direction of the mirror reflection.\<close>

definition material_sample_reflection :: "Material \<Rightarrow> frame3f \<Rightarrow> vec3f \<Rightarrow> error + BrdfSample" where
  "material_sample_reflection material fr wo =
     (case ERROR_IF_NOT_no_textures material ''no textures allowed'' of
        Inl e \<Rightarrow> Inl e
      | Inr _ \<Rightarrow>
          (case material of
             Phong nt kd ks ex kr bl dt st et rt ur \<Rightarrow>
               if dot wo (fz fr) \<le> 0 then Inr BrdfSample_default
               else Inr \<lparr>bs_brdfcos = kr, bs_wi = reflect (- wo) (fz fr), bs_pdf = 1\<rparr>
           | _ \<Rightarrow> Inr BrdfSample_default))"

text \<open>\<^verbatim>\<open>material_sample_blurryreflection\<close>: the blurred mirror reflection.\<close>

definition material_sample_blurryreflection ::
  "Material \<Rightarrow> frame3f \<Rightarrow> vec3f \<Rightarrow> vec2f \<Rightarrow> error + BrdfSample" where
  "material_sample_blurryreflection material fr wo suv =
     (case ERROR_IF_NOT_no_textures material ''no textures allowed'' of
        Inl e \<Rightarrow> Inl e
      | Inr _ \<Rightarrow>
          (case material of
             Phong nt kd ks ex kr bl dt st et rt ur \<Rightarrow>
               if dot wo (fz fr) \<le> 0 then Inr BrdfSample_default
               else
                 (let wi = reflect (- wo) (fz fr);
                      u = normalize (cross wi wo);
                      v = normalize (cross wi u);
                      sl = bl
                  in Inr \<lparr>bs_brdfcos = kr,
                          bs_wi = normalize (wi + muls u ((0.5 - ux suv) * sl)
                                                + muls v ((0.5 - uy suv) * sl)),
                          bs_pdf = 1 / (sl * sl)\<rparr>)
           | _ \<Rightarrow> Inr BrdfSample_default))"

text \<open>
  \<^verbatim>\<open>material_sample_brdfcos\<close>: pick a direction and sample it.  The sampler
  \<^verbatim>\<open>sample_direction_hemisphericalcos\<close> of \<^verbatim>\<open>vmath/montecarlo.h\<close> is not among the
  sources; it is the parameter \<open>hemisphericalcos\<close>, which returns the direction and its
  pdf.  The source calls \<^verbatim>\<open>material_brdfcos\<close> on the same material in each branch.
\<close>

definition material_sample_brdfcos ::
  "(vec2f \<Rightarrow> vec3f \<times> real) \<Rightarrow> Material \<Rightarrow> frame3f \<Rightarrow> vec3f \<Rightarrow> vec2f \<Rightarrow> real
     \<Rightarrow> error + BrdfSample" where
  "material_sample_brdfcos hemisphericalcos material fr wo suv sl =
     (case ERROR_IF_NOT_no_textures material ''no textures allowed'' of
        Inl e \<Rightarrow> Inl e
      | Inr _ \<Rightarrow>
          (case material of
             OtherMaterial nt \<Rightarrow> Inl NOT_IMPLEMENTED_ERROR
           | _ \<Rightarrow>
               if dot wo (fz fr) \<le> 0 then Inr BrdfSample_default
               else
                 (let (ds_dir, ds_pdf) = hemisphericalcos suv;
                      wi = transform_direction fr ds_dir
                  in case material_brdfcos material fr wi wo of
                       Inl e \<Rightarrow> Inl e
                     | Inr b \<Rightarrow> Inr \<lparr>bs_brdfcos = b, bs_wi = wi, bs_pdf = ds_pdf\<rparr>)))"

subsection \<open>The collaborators of the integrator\<close>

text \<open>
  Modelled from the spec: the random source, the rays, the intersector, the camera and the
  scene are not among the sources.
  \<^item> The random source ``supplies independent uniform floats on demand''.  The state of a
    deterministic generator fixes every float it will return, so a state is the stream of
    these floats and \<^verbatim>\<open>rng.next_float()\<close> takes its head.
  \<^item> A ray is built by \<^verbatim>\<open>ray3f(e,d)\<close> or by \<^verbatim>\<open>ray3f::segment(a,b)\<close>; both stay
    symbolic, and the intersector gives them their meaning.
  \<^item> \<^verbatim>\<open>intersect_scene_first\<close>, \<^verbatim>\<open>intersect_scene_any\<close> and \<^verbatim>\<open>camera_ray_dof\<close>
    are fields of the scene: whatever these functions compute from the scene is a
    parameter of the model.  The camera takes the random source and hands it back.
\<close>

type_synonym Rng = "real stream"

definition next_float :: "Rng \<Rightarrow> real \<times> Rng" where
  "next_float rng = (shd rng, stl rng)"

datatype ray3f = ray3f vec3f vec3f | segment vec3f vec3f

fun ray_d :: "ray3f \<Rightarrow> vec3f" where
  "ray_d (ray3f e d) = d"
| "ray_d (segment a b) = normalize (b - a)"

record intersection3f =
  is_frame :: frame3f
  is_texcoord :: vec2f
  is_material :: Material

record Scene =
  lights :: "Light list"
  cameralights_group :: "Light list"
  intersect_scene_first :: "ray3f \<Rightarrow> intersection3f option"
  intersect_scene_any :: "ray3f \<Rightarrow> bool"
  camera_ray_dof :: "vec2f \<Rightarrow> Rng \<Rightarrow> ray3f \<times> Rng"

text \<open>
  \<^verbatim>\<open>DistributionRaytraceOptions\<close>, without its field \<^verbatim>\<open>rng\<close>: the options are passed
  by reference and only the random source changes, so its state is an argument and a
  result of every function that draws from it.
\<close>

record DistributionRaytraceOptions =
  background :: vec3f
  ambient :: vec3f
  samples :: int
  samples_ambient :: int
  shadows :: bool
  reflections :: bool
  max_depth :: int
  cameralights :: bool
  doublesided :: bool

subsection \<open>Loops\<close>

text \<open>
  A \<^verbatim>\<open>for\<close> loop whose body can fail: the body takes the loop variable and the state,
  and the first failure leaves the loop.  \<^verbatim>\<open>for (int i = 0; i < n; i++)\<close> runs over
  \<^term>\<open>[0..<nat n]\<close>, which is empty for \<open>n \<le> 0\<close>.
\<close>

primrec for_each :: "('a \<Rightarrow> 's \<Rightarrow> error + 's) \<Rightarrow> 'a list \<Rightarrow> 's \<Rightarrow> error + 's" where
  "for_each body [] s = Inr s"
| "for_each body (x # xs) s =
     (case body x s of Inl e \<Rightarrow> Inl e | Inr s' \<Rightarrow> for_each body xs s')"

subsection \<open>distraytrace.cpp: the integrator\<close>

text \<open>
  The ambient loop (lines 35--47): three floats are drawn for each hemisphere ray, and the
  rays that escape are counted.  The source does not fix the order in which the three
  arguments of the \<^verbatim>\<open>vec3f\<close> constructor are evaluated; the model draws them left to
  right.
\<close>

definition ambient_step :: "Scene \<Rightarrow> intersection3f \<Rightarrow> int \<times> Rng \<Rightarrow> int \<times> Rng" where
  "ambient_step scene isect = (\<lambda>(visible, rng).
     let (r1, rng1) = next_float rng;
         (r2, rng2) = next_float rng1;
         (r3, rng3) = next_float rng2;
         hemi_dir = normalize (vec3f (0.5 - r1) (0.5 - r2) \<bar>0.5 - r3\<bar>);
         hemi_dir' = transform_direction (is_frame isect) hemi_dir;
         hemi_ray = ray3f (fo (is_frame isect)) hemi_dir'
     in (if \<not> intersect_scene_any scene hemi_ray then visible + 1 else visible, rng3))"

text \<open>The ambient term (lines 33--53), added to \<open>c\<close>.\<close>

definition compute_ambient ::
  "Scene \<Rightarrow> DistributionRaytraceOptions \<Rightarrow> intersection3f \<Rightarrow> Material \<Rightarrow> vec3f \<times> Rng
     \<Rightarrow> error + vec3f \<times> Rng" where
  "compute_ambient scene opts isect brdf = (\<lambda>(c, rng).
     if samples_ambient opts \<noteq> 0 then
       (let (visible, rng') =
              fold (\<lambda>i. ambient_step scene isect) [0..<nat (samples_ambient opts)] (0, rng)
        in case material_diffuse_albedo brdf of
             Inl e \<Rightarrow> Inl e
           | Inr kd \<Rightarrow>
               Inr (c + muls (ambient opts)
                          (real_of_int visible / real_of_int (samples_ambient opts)) * kd,
                    rng'))
     else
       (case material_diffuse_albedo brdf of
          Inl e \<Rightarrow> Inl e
        | Inr kd \<Rightarrow> Inr (c + ambient opts * kd, rng)))"

text \<open>
  The number of shadow rays the integrator casts for a light (line 62):
  \<^verbatim>\<open>(is<AreaLight>(l)) ? cast<AreaLight>(l)->shadow_samples : 1\<close>.  The integrator does not
  call \<^verbatim>\<open>light_shadow_nsamples\<close>.
\<close>

definition direct_shadow_samples :: "Light \<Rightarrow> int" where
  "direct_shadow_samples l = (case l of AreaLight f i s n \<Rightarrow> n | _ \<Rightarrow> 1)"

text \<open>
  The body of the shadow loop (lines 64--77) for the sample \<open>ss\<close> and the count
  \<open>shadow_samples\<close>; \<^verbatim>\<open>continue\<close> leaves \<open>c\<close> as it is.
\<close>

definition shadow_step ::
  "Scene \<Rightarrow> DistributionRaytraceOptions \<Rightarrow> Material \<Rightarrow> frame3f \<Rightarrow> vec3f \<Rightarrow> ShadowSample
     \<Rightarrow> int \<Rightarrow> vec3f \<Rightarrow> error + vec3f" where
  "shadow_step scene opts brdf fr wo ss nsamples c =
     (let wi = ss_dir ss in
      if ss_radiance ss = zero3f then Inr c
      else
        (case material_brdfcos brdf fr wi wo of
           Inl e \<Rightarrow> Inl e
         | Inr b \<Rightarrow>
             (let cl = divs (ss_radiance ss * b) (ss_pdf ss) in
              if cl = zero3f then Inr c
              else if shadows opts then
                (if \<not> intersect_scene_any scene
                        (segment (fo fr) (fo fr + muls (ss_dir ss) (ss_dist ss)))
                 then Inr (c + divs cl (real_of_int nsamples))
                 else Inr c)
              else Inr (c + divs cl (real_of_int nsamples)))))"

text \<open>
  What one repetition of the shadow loop adds to \<open>c\<close>, given the value \<open>b\<close> of
  \<^verbatim>\<open>material_brdfcos\<close> at the sample's direction: nothing after a \<^verbatim>\<open>continue\<close> or for
  an occluded sample, else \<^verbatim>\<open>cl / (float)shadow_samples\<close>.
\<close>

definition shadow_contribution ::
  "Scene \<Rightarrow> DistributionRaytraceOptions \<Rightarrow> frame3f \<Rightarrow> ShadowSample \<Rightarrow> vec3f \<Rightarrow> int
     \<Rightarrow> vec3f" where
  "shadow_contribution scene opts fr ss b nsamples =
     (let cl = divs (ss_radiance ss * b) (ss_pdf ss) in
      if ss_radiance ss = zero3f \<or> cl = zero3f then zero3f
      else if shadows opts \<and>
              intersect_scene_any scene (segment (fo fr) (fo fr + muls (ss_dir ss) (ss_dist ss)))
      then zero3f
      else divs cl (real_of_int nsamples))"

text \<open>
  The body of the loop over the lights (lines 61--78).  The source does not fix the order
  in which the two \<^verbatim>\<open>rng.next_float()\<close> arguments are evaluated; the model draws
  \<open>u_rand\<close> first.
\<close>

definition direct_light ::
  "real \<Rightarrow> Scene \<Rightarrow> DistributionRaytraceOptions \<Rightarrow> Material \<Rightarrow> frame3f \<Rightarrow> vec3f \<Rightarrow> Light
     \<Rightarrow> vec3f \<times> Rng \<Rightarrow> error + vec3f \<times> Rng" where
  "direct_light rayinf scene opts brdf fr wo l = (\<lambda>(c, rng).
     let (u_rand, rng1) = next_float rng;
         (v_rand, rng2) = next_float rng1
     in case rand_light_shadow_sample rayinf l (fo fr) u_rand v_rand of
          Inl e \<Rightarrow> Inl e
        | Inr ss \<Rightarrow>
            (let nsamples = direct_shadow_samples l in
             case for_each (\<lambda>i. shadow_step scene opts brdf fr wo ss nsamples)
                    [0..<nat nsamples] c of
               Inl e \<Rightarrow> Inl e
             | Inr c' \<Rightarrow> Inr (c', rng2)))"

text \<open>The direct term (lines 59--79), added to \<open>c\<close>.\<close>

definition compute_direct ::
  "real \<Rightarrow> Scene \<Rightarrow> DistributionRaytraceOptions \<Rightarrow> Material \<Rightarrow> frame3f \<Rightarrow> vec3f
     \<Rightarrow> vec3f \<times> Rng \<Rightarrow> error + vec3f \<times> Rng" where
  "compute_direct rayinf scene opts brdf fr wo =
     for_each (direct_light rayinf scene opts brdf fr wo)
       (if cameralights opts then cameralights_group scene else lights scene)"

text \<open>
  Lines 13--79, everything before the recursion: the shading frame, the resolved material
  \<open>brdf\<close>, and the sum \<open>c\<close> of the ambient, emission and direct terms.
\<close>

definition shade_hit ::
  "real \<Rightarrow> Scene \<Rightarrow> ray3f \<Rightarrow> DistributionRaytraceOptions \<Rightarrow> intersection3f \<Rightarrow> Rng
     \<Rightarrow> error + (frame3f \<times> vec3f \<times> Material) \<times> vec3f \<times> Rng" where
  "shade_hit rayinf scene ray opts isect rng =
     (let c = zero3f;
          fr = is_frame isect;
          texcoord = is_texcoord isect;
          wo = - ray_d ray;
          material = is_material isect;
          fr = (if doublesided opts then faceforward fr (ray_d ray) else fr);
          fr = material_shading_frame material fr texcoord
      in case material_shading_textures (is_material isect) (is_texcoord isect) of
           Inl e \<Rightarrow> Inl e
         | Inr brdf \<Rightarrow>
             (case compute_ambient scene opts isect brdf (c, rng) of
                Inl e \<Rightarrow> Inl e
              | Inr (c, rng) \<Rightarrow>
                  (case material_emission brdf fr wo of
                     Inl e \<Rightarrow> Inl e
                   | Inr ke \<Rightarrow>
                       (case compute_direct rayinf scene opts brdf fr wo (c + ke, rng) of
                          Inl e \<Rightarrow> Inl e
                        | Inr (c, rng) \<Rightarrow> Inr ((fr, wo, brdf), c, rng)))))"

text \<open>
  \<^verbatim>\<open>_dist_raytrace_scene_ray\<close>.  The recursive call is made under the guard
  \<^verbatim>\<open>opts.reflections and depth < opts.max_depth\<close> with \<^verbatim>\<open>depth+1\<close>, so
  \<open>max_depth - depth\<close> decreases: the recursion is well-founded for every scene, ray,
  options, random source and depth.
\<close>

function dist_raytrace_scene_ray ::
  "real \<Rightarrow> Scene \<Rightarrow> ray3f \<Rightarrow> DistributionRaytraceOptions \<Rightarrow> Rng \<Rightarrow> int
     \<Rightarrow> error + vec3f \<times> Rng" where
  "dist_raytrace_scene_ray rayinf scene ray opts rng depth =
     (case intersect_scene_first scene ray of
        None \<Rightarrow> Inr (background opts, rng)
      | Some isect \<Rightarrow>
          (case shade_hit rayinf scene ray opts isect rng of
             Inl e \<Rightarrow> Inl e
           | Inr ((fr, wo, brdf), c, rng') \<Rightarrow>
               if reflections opts \<and> depth < max_depth opts then
                 (case material_sample_reflection brdf fr wo of
                    Inl e \<Rightarrow> Inl e
                  | Inr bs \<Rightarrow>
                      if \<not> (bs_brdfcos bs = zero3f) then
                        (let refl_ray = ray3f (fo fr) (bs_wi bs) in
                         case dist_raytrace_scene_ray rayinf scene refl_ray opts rng'
                                (depth + 1) of
                           Inl e \<Rightarrow> Inl e
                         | Inr (cr, rng'') \<Rightarrow> Inr (c + cr * bs_brdfcos bs, rng''))
                      else Inr (c, rng'))
               else Inr (c, rng')))"
  by pat_completeness auto
termination
  by (relation "measure (\<lambda>(rayinf, scene, ray, opts, rng, depth). nat (max_depth opts - depth))")
    auto

declare dist_raytrace_scene_ray.simps [simp del]

subsection \<open>distraytrace.cpp: the pixel sampling driver\<close>

text \<open>
  Modelled from the spec: \<^verbatim>\<open>ImageBuffer\<close> is not among the sources.  It holds, for each
  pixel, the ``running sum of radiance'' \<^verbatim>\<open>accum\<close> and the ``sample count''
  \<^verbatim>\<open>samples\<close>; an image is a function of the pixel, and \<^verbatim>\<open>at(i,j) += v\<close> an update of
  that function at \<open>(i, j)\<close>.  The driver addresses only pixels inside the image.
\<close>

record ImageBuffer =
  buf_width :: nat
  buf_height :: nat
  buf_accum :: "nat \<times> nat \<Rightarrow> vec3f"
  buf_samples :: "nat \<times> nat \<Rightarrow> int"

text \<open>
  Lines 112--116, right of \<^verbatim>\<open>+=\<close>: the jittered camera ray of pixel \<open>(i, j)\<close> and the
  integrator's estimate for it at depth 0.
\<close>

definition draw_sample ::
  "real \<Rightarrow> Scene \<Rightarrow> DistributionRaytraceOptions \<Rightarrow> nat \<Rightarrow> nat \<Rightarrow> nat \<Rightarrow> nat \<Rightarrow> Rng
     \<Rightarrow> error + vec3f \<times> Rng" where
  "draw_sample rayinf scene opts w h i j rng =
     (let (r1, rng1) = next_float rng;
          u = (real i + (0.5 - r1)) / real w;
          (r2, rng2) = next_float rng1;
          v = (real j + (0.5 - r2)) / real h;
          (ray, rng3) = camera_ray_dof scene (vec2f u v) rng2
      in dist_raytrace_scene_ray rayinf scene ray opts rng3 0)"

text \<open>Lines 116--117: \<^verbatim>\<open>accum.at(p) += c; samples.at(p) += 1\<close>.\<close>

definition accumulate :: "ImageBuffer \<Rightarrow> (nat \<times> nat) \<times> vec3f \<Rightarrow> ImageBuffer" where
  "accumulate buffer = (\<lambda>(p, c).
     buffer\<lparr>buf_accum := (buf_accum buffer)(p := buf_accum buffer p + c),
            buf_samples := (buf_samples buffer)(p := buf_samples buffer p + 1)\<rparr>)"

text \<open>The body of the innermost loop (lines 112--117).\<close>

definition sample_pixel ::
  "real \<Rightarrow> Scene \<Rightarrow> DistributionRaytraceOptions \<Rightarrow> nat \<Rightarrow> nat \<Rightarrow> nat \<Rightarrow> nat
     \<Rightarrow> ImageBuffer \<times> Rng \<Rightarrow> error + ImageBuffer \<times> Rng" where
  "sample_pixel rayinf scene opts w h i j = (\<lambda>(buffer, rng).
     case draw_sample rayinf scene opts w h i j rng of
       Inl e \<Rightarrow> Inl e
     | Inr (c, rng') \<Rightarrow> Inr (accumulate buffer ((i, h - 1 - j), c), rng'))"

text \<open>
  \<^verbatim>\<open>dist_raytrace_scene_progressive\<close>.  The variable \<^verbatim>\<open>s2\<close> of the source is never
  read and is left out.
\<close>

definition dist_raytrace_scene_progressive ::
  "real \<Rightarrow> Scene \<Rightarrow> DistributionRaytraceOptions \<Rightarrow> ImageBuffer \<times> Rng
     \<Rightarrow> error + ImageBuffer \<times> Rng" where
  "dist_raytrace_scene_progressive rayinf scene opts = (\<lambda>(buffer, rng).
     let w = buf_width buffer;
         h = buf_height buffer
     in for_each (\<lambda>j.
          for_each (\<lambda>i.
            for_each (\<lambda>k. sample_pixel rayinf scene opts w h i j) [0..<nat (samples opts)])
            [0..<w])
          [0..<h] (buffer, rng))"

subsection \<open>The samples of a pass\<close>

text \<open>
  For the statements about progressive accumulation: the same three loops, recording each
  sample with its pixel, in the order the driver draws them, instead of adding it to the
  buffer.  \<open>pass_radiances\<close> is the list of the radiances a pass draws for one pixel.
\<close>

definition record_sample ::
  "real \<Rightarrow> Scene \<Rightarrow> DistributionRaytraceOptions \<Rightarrow> nat \<Rightarrow> nat \<Rightarrow> nat \<Rightarrow> nat
     \<Rightarrow> ((nat \<times> nat) \<times> vec3f) list \<times> Rng \<Rightarrow> error + ((nat \<times> nat) \<times> vec3f) list \<times> Rng" where
  "record_sample rayinf scene opts w h i j = (\<lambda>(tr, rng).
     case draw_sample rayinf scene opts w h i j rng of
       Inl e \<Rightarrow> Inl e
     | Inr (c, rng') \<Rightarrow> Inr (tr @ [((i, h - 1 - j), c)], rng'))"

definition pass_samples ::
  "real \<Rightarrow> Scene \<Rightarrow> DistributionRaytraceOptions \<Rightarrow> nat \<Rightarrow> nat
     \<Rightarrow> ((nat \<times> nat) \<times> vec3f) list \<times> Rng \<Rightarrow> error + ((nat \<times> nat) \<times> vec3f) list \<times> Rng" where
  "pass_samples rayinf scene opts w h =
     for_each (\<lambda>j.
       for_each (\<lambda>i.
         for_each (\<lambda>k. record_sample rayinf scene opts w h i j) [0..<nat (samples opts)])
         [0..<w])
       [0..<h]"

definition radiances_at :: "((nat \<times> nat) \<times> vec3f) list \<Rightarrow> nat \<times> nat \<Rightarrow> vec3f list" where
  "radiances_at tr p = map snd (filter (\<lambda>e. fst e = p) tr)"

definition pass_radiances ::
  "real \<Rightarrow> Scene \<Rightarrow> DistributionRaytraceOptions \<Rightarrow> nat \<Rightarrow> nat \<Rightarrow> Rng \<Rightarrow> nat \<times> nat
     \<Rightarrow> vec3f list" where
  "pass_radiances rayinf scene opts w h rng p =
     (case pass_samples rayinf scene opts w h ([], rng) of
        Inl e \<Rightarrow> []
      | Inr (tr, rng') \<Rightarrow> radiances_at tr p)"


subsection \<open>Example inputs\<close>

text \<open>
  A scene without geometry and without lights, whose camera sends every ray from the origin
  along \<open>z\<close>; a scene in which every ray hits, at the origin, a textured Phong mirror that
  faces the ray, so that the ray is sent back and forth and mirror sampling succeeds at
  every level; options with mirror reflections switched on; and a random source that
  returns 1/2, 1/4, 1/8, ...
\<close>

definition dark_scene :: Scene where
  "dark_scene =
     \<lparr>lights = [], cameralights_group = [],
      intersect_scene_first = (\<lambda>ray. None),
      intersect_scene_any = (\<lambda>ray. False),
      camera_ray_dof = (\<lambda>uv rng. (ray3f zero3f z3f, rng))\<rparr>"

definition textured_mirror :: Material where
  "textured_mirror =
     Phong None one3f one3f 10 one3f 0 (Some (Texture [])) None None (Some (Texture [])) False"

definition mirror_scene :: Scene where
  "mirror_scene =
     dark_scene\<lparr>intersect_scene_first := (\<lambda>ray.
       Some \<lparr>is_frame = identity_frame3f\<lparr>fz := - ray_d ray\<rparr>, is_texcoord = vec2f 0 0,
             is_material = textured_mirror\<rparr>)\<rparr>"

definition mirror_opts :: DistributionRaytraceOptions where
  "mirror_opts =
     \<lparr>background = zero3f, ambient = one3f, samples = 1, samples_ambient = 0, shadows = False,
      reflections = True, max_depth = 2, cameralights = False, doublesided = False\<rparr>"

definition halving_rng :: Rng where
  "halving_rng = siterate (\<lambda>x. x / 2) (1 / 2)"

text \<open>
  A scene with a point light one unit above the origin and a directional light shining
  down on it, and an area light of two shadow samples that hangs there facing down.
\<close>

definition lit_scene :: Scene where
  "lit_scene =
     dark_scene\<lparr>lights :=
       [PointLight (identity_frame3f\<lparr>fo := vec3f 0 0 1\<rparr>) one3f,
        DirectionalLight (identity_frame3f\<lparr>fz := vec3f 0 0 (- 1)\<rparr>) one3f]\<rparr>"

definition ceiling_light :: Light where
  "ceiling_light =
     AreaLight (identity_frame3f\<lparr>fo := vec3f 0 0 1, fz := vec3f 0 0 (- 1)\<rparr>) one3f
       (Some (Quad 1 1)) 2"

text \<open>
  The pixels of a pass over an image of width \<open>w\<close> and height \<open>h\<close> with \<open>n\<close> samples
  for each pixel, in the order of the three loops of the driver.
\<close>

definition pass_pixels :: "nat \<Rightarrow> nat \<Rightarrow> nat \<Rightarrow> (nat \<times> nat) list" where
  "pass_pixels w h n =
     concat (map (\<lambda>j. concat (map (\<lambda>i. replicate n (i, h - 1 - j)) [0..<w])) [0..<h])"

text \<open>An empty image of two pixels, and options with a visible background.\<close>

definition blank_buffer :: ImageBuffer where
  "blank_buffer =
     \<lparr>buf_width = 2, buf_height = 1, buf_accum = (\<lambda>p. zero3f), buf_samples = (\<lambda>p. 0)\<rparr>"

definition sky_opts :: DistributionRaytraceOptions where
  "sky_opts = mirror_opts\<lparr>background := vec3f 1 2 3\<rparr>"

text \<open>
  A scene lit from behind: a square area light in the identity frame, which faces up, and
  a white Lambert surface one unit below it that faces up as well and is hit by every ray;
  options that leave only the direct term.
\<close>

definition backlit_scene :: Scene where
  "backlit_scene =
     dark_scene\<lparr>lights := [AreaLight identity_frame3f one3f (Some (Quad 1 1)) 1],
       intersect_scene_first := (\<lambda>ray.
         Some \<lparr>is_frame = identity_frame3f\<lparr>fo := vec3f 0 0 (- 1)\<rparr>, is_texcoord = vec2f 0 0,
               is_material = Lambert None one3f None\<rparr>)\<rparr>"

definition direct_only_opts :: DistributionRaytraceOptions where
  "direct_only_opts =
     \<lparr>background = zero3f, ambient = zero3f, samples = 1, samples_ambient = 0, shadows = False,
      reflections = False, max_depth = 0, cameralights = False, doublesided = False\<rparr>"

section \<open>Properties\<close>

subsection \<open>Evaluating vectors and frames\<close>

lemmas vec3f_defs =
  zero_vec3f_def one_vec3f_def plus_vec3f_def minus_vec3f_def uminus_vec3f_def times_vec3f_def
  muls_def divs_def zero3f_def one3f_def z3f_def dot_def lengthSqr_def length3_def normalize_def

lemmas frame_defs =
  identity_frame3f_def transform_vector_def transform_direction_def transform_point_inverse_def

lemma transform_direction_neg_z3f: "transform_direction f (- z3f) = - fz f"
  by (simp add: frame_defs vec3f_defs)

subsection \<open>The deterministic shadow sample of a directional light\<close>

text \<open>
  C4, as the code has it.  For a directional light with frame \<open>f\<close> and intensity \<open>i\<close>, the
  deterministic shadow sample at any point \<open>p\<close> has the radiance \<open>i\<close>, unscaled, the
  distance \<open>rayinf\<close> and the pdf 1; its direction is the \<^emph>\<open>negated\<close> \<open>z\<close> axis of the
  light's frame taken to world space, that is \<open>- fz f\<close>: the sample points from the
  shading point towards the light, against the axis along which the light shines.  The
  sample is the same at every shading point.
\<close>

theorem directional_shadow_sample:
  "light_shadow_sample rayinf (DirectionalLight f i) p =
     Inr \<lparr>ss_radiance = i, ss_dir = transform_direction f (- z3f), ss_dist = rayinf, ss_pdf = 1\<rparr>
   \<and> transform_direction f (- z3f) = - fz f
   \<and> light_shadow_sample rayinf (DirectionalLight f i) p =
       light_shadow_sample rayinf (DirectionalLight f i) q"
  by (simp add: light_shadow_sample_def transform_direction_neg_z3f)

theorem directional_shadow_sample_witness:
  "light_shadow_sample 1000 (DirectionalLight identity_frame3f (vec3f 1 2 3)) (vec3f 4 5 6) =
     Inr \<lparr>ss_radiance = vec3f 1 2 3, ss_dir = vec3f 0 0 (- 1), ss_dist = 1000, ss_pdf = 1\<rparr>"
  using directional_shadow_sample [of 1000 identity_frame3f "vec3f 1 2 3" "vec3f 4 5 6"]
  by (simp add: identity_frame3f_def uminus_vec3f_def)

text \<open>
  C4 as stated fails: in the identity frame the direction of the sample is \<open>(0, 0, -1)\<close>,
  which is not the frame's \<open>z\<close> axis taken to world space.
\<close>

theorem directional_direction_counterexample:
  "light_shadow_sample 1000 (DirectionalLight identity_frame3f one3f) zero3f =
     Inr \<lparr>ss_radiance = one3f, ss_dir = vec3f 0 0 (- 1), ss_dist = 1000, ss_pdf = 1\<rparr>
   \<and> vec3f 0 0 (- 1) \<noteq> transform_direction identity_frame3f z3f"
  by (simp add: light_shadow_sample_def frame_defs vec3f_defs)

subsection \<open>The shadow-sample count of the integrator\<close>

text \<open>
  C1, as the code has it.  In the direct-lighting step the number of repetitions of the
  shadow loop, which is also the divisor of each added contribution, is the configured
  count for an area light and 1 for a point, a directional \<^emph>\<open>and an environment\<close> light:
  the step for a light \<open>l\<close> whose sample \<open>ss\<close> is drawn from the next two random numbers
  runs \<open>shadow_step\<close> with the divisor \<open>direct_shadow_samples l\<close> exactly
  \<open>direct_shadow_samples l\<close> times.
\<close>

theorem direct_shadow_sample_count:
  "direct_shadow_samples (PointLight f i) = 1
   \<and> direct_shadow_samples (DirectionalLight f i) = 1
   \<and> direct_shadow_samples (AreaLight f i s n) = n
   \<and> direct_shadow_samples (EnvLight f i e h n b) = 1
   \<and> (rand_light_shadow_sample rayinf l (fo fr) (shd rng) (shd (stl rng)) = Inr ss \<longrightarrow>
        direct_light rayinf scene opts brdf fr wo l (c, rng) =
          (case for_each (\<lambda>k. shadow_step scene opts brdf fr wo ss (direct_shadow_samples l))
                  [0..<nat (direct_shadow_samples l)] c of
             Inl e \<Rightarrow> Inl e
           | Inr c' \<Rightarrow> Inr (c', stl (stl rng))))"
  by (simp add: direct_shadow_samples_def direct_light_def next_float_def Let_def)

lemma env_light_sample_example:
  "rand_light_shadow_sample 1000
       (EnvLight (identity_frame3f\<lparr>fo := vec3f 0 0 1\<rparr>) one3f None False 16 True)
       (fo identity_frame3f) (shd halving_rng) (shd (stl halving_rng))
     = Inr \<lparr>ss_radiance = vec3f pi pi pi, ss_dir = vec3f 0 0 1, ss_dist = 1000, ss_pdf = 1\<rparr>"
  by (simp add: rand_light_shadow_sample_def light_shadow_sample_def Let_def frame_defs
        vec3f_defs pif_def)

theorem direct_shadow_sample_count_witness:
  "rand_light_shadow_sample 1000
       (EnvLight (identity_frame3f\<lparr>fo := vec3f 0 0 1\<rparr>) one3f None False 16 True)
       (fo identity_frame3f) (shd halving_rng) (shd (stl halving_rng))
     = Inr \<lparr>ss_radiance = vec3f pi pi pi, ss_dir = vec3f 0 0 1, ss_dist = 1000, ss_pdf = 1\<rparr>
   \<and> direct_light 1000 dark_scene mirror_opts (Lambert None one3f None) identity_frame3f z3f
       (EnvLight (identity_frame3f\<lparr>fo := vec3f 0 0 1\<rparr>) one3f None False 16 True)
       (zero3f, halving_rng)
     = Inr (vec3f 1 1 1, stl (stl halving_rng))"
  using direct_shadow_sample_count [where rayinf = 1000
      and l = "EnvLight (identity_frame3f\<lparr>fo := vec3f 0 0 1\<rparr>) one3f None False 16 True"
      and fr = identity_frame3f and rng = halving_rng and scene = dark_scene
      and opts = mirror_opts and brdf = "Lambert None one3f None" and wo = z3f and c = zero3f
      and ss = "\<lparr>ss_radiance = vec3f pi pi pi, ss_dir = vec3f 0 0 1, ss_dist = 1000, ss_pdf = 1\<rparr>"]
    env_light_sample_example
  by (simp add: shadow_step_def material_brdfcos_def ERROR_IF_NOT_no_textures_def
      mirror_opts_def Let_def identity_frame3f_def vec3f_defs pif_def)

text \<open>
  C1 as stated fails for an environment light: with a configured count of 16 the integrator
  repeats once and divides by 1, although \<^verbatim>\<open>light_shadow_nsamples\<close> returns 16.
\<close>

theorem env_shadow_sample_count_counterexample:
  "direct_shadow_samples (EnvLight identity_frame3f one3f None False 16 True) = 1
   \<and> light_shadow_nsamples (EnvLight identity_frame3f one3f None False 16 True) = 16"
  by (simp add: direct_shadow_samples_def)

subsection \<open>The stochastic shadow sample of an area light\<close>

text \<open>The pdf of the sample of a quad light is the inverse of the quad's area.\<close>

lemma area_shadow_sample_pdf:
  "rand_light_shadow_sample rayinf (AreaLight f i (Some (Quad w h)) n) p u_rand v_rand = Inr ss
   \<Longrightarrow> ss_pdf ss = 1 / (w * h)"
  by (auto simp: rand_light_shadow_sample_def Let_def)

lemma backlit_shade_hit:
  "shade_hit 1000 backlit_scene (ray3f (vec3f 0 0 1) (vec3f 0 0 (- 1))) direct_only_opts
      \<lparr>is_frame = identity_frame3f\<lparr>fo := vec3f 0 0 (- 1)\<rparr>, is_texcoord = vec2f 0 0,
       is_material = Lambert None one3f None\<rparr> (sconst (1 / 2))
   = Inr ((identity_frame3f\<lparr>fo := vec3f 0 0 (- 1)\<rparr>, vec3f 0 0 1, Lambert None one3f None),
          vec3f (- (1 / pi)) (- (1 / pi)) (- (1 / pi)), sconst (1 / 2))"
  by (simp add: shade_hit_def backlit_scene_def dark_scene_def direct_only_opts_def
      compute_ambient_def compute_direct_def direct_light_def direct_shadow_samples_def
      shadow_step_def rand_light_shadow_sample_def next_float_def
      material_shading_frame_def material_diffuse_albedo_def material_emission_def
      material_brdfcos_def ERROR_IF_NOT_no_textures_def
      Let_def frame_defs vec3f_defs pif_def)

text \<open>
  C2.  The claim asks, besides the pdf \<open>1 / (w * h)\<close>, that the radiance of the sample be
  non-negative componentwise and zero when the cosine between the local normal of the
  shape and the outgoing direction is not positive.  The radiance is multiplied by that
  cosine (line 136 of \<^verbatim>\<open>light.h\<close>), and nothing clamps the cosine at zero.  For the
  square light of intensity \<open>(1, 1, 1)\<close> in the identity frame, the shading point
  \<open>(0, 0, -1)\<close> behind it and the random numbers 1/2 and 1/2, the cosine is \<open>-1\<close> and the
  radiance of the sample is \<open>(-1, -1, -1)\<close>, where the claim asks for zero; the integrator
  adds the sample, and its estimate for a ray that hits a white Lambert surface at that
  point is \<open>(-1/\<pi>, -1/\<pi>, -1/\<pi>)\<close>.
\<close>

theorem area_radiance_negative:
  "rand_light_shadow_sample 1000 (AreaLight identity_frame3f one3f (Some (Quad 1 1)) 1)
       (vec3f 0 0 (- 1)) (1 / 2) (1 / 2)
     = Inr \<lparr>ss_radiance = vec3f (- 1) (- 1) (- 1), ss_dir = vec3f 0 0 1, ss_dist = 1, ss_pdf = 1\<rparr>
   \<and> dot (vec3f 0 0 1) (- vec3f 0 0 1) = - 1
   \<and> dist_raytrace_scene_ray 1000 backlit_scene (ray3f (vec3f 0 0 1) (vec3f 0 0 (- 1)))
         direct_only_opts (sconst (1 / 2)) 0
     = Inr (vec3f (- (1 / pi)) (- (1 / pi)) (- (1 / pi)), sconst (1 / 2))"
proof (intro conjI)
  show "rand_light_shadow_sample 1000 (AreaLight identity_frame3f one3f (Some (Quad 1 1)) 1)
       (vec3f 0 0 (- 1)) (1 / 2) (1 / 2)
     = Inr \<lparr>ss_radiance = vec3f (- 1) (- 1) (- 1), ss_dir = vec3f 0 0 1, ss_dist = 1, ss_pdf = 1\<rparr>"
    by (simp add: rand_light_shadow_sample_def Let_def frame_defs vec3f_defs)
  show "dot (vec3f 0 0 1) (- vec3f 0 0 1) = - 1"
    by (simp add: vec3f_defs)
  have first: "intersect_scene_first backlit_scene (ray3f (vec3f 0 0 1) (vec3f 0 0 (- 1)))
      = Some \<lparr>is_frame = identity_frame3f\<lparr>fo := vec3f 0 0 (- 1)\<rparr>, is_texcoord = vec2f 0 0,
               is_material = Lambert None one3f None\<rparr>"
    by (simp add: backlit_scene_def)
  have off: "\<not> reflections direct_only_opts"
    by (simp add: direct_only_opts_def)
  show "dist_raytrace_scene_ray 1000 backlit_scene (ray3f (vec3f 0 0 1) (vec3f 0 0 (- 1)))
         direct_only_opts (sconst (1 / 2)) 0
     = Inr (vec3f (- (1 / pi)) (- (1 / pi)) (- (1 / pi)), sconst (1 / 2))"
    by (subst dist_raytrace_scene_ray.simps) (simp add: first backlit_shade_hit off)
qed

subsection \<open>The area light needs a quad\<close>

text \<open>
  C10.  The stochastic shadow sample of an area light returns a sample if and only if the
  light's shape is a non-null quad; for a null shape and for any other shape the unchecked
  \<^verbatim>\<open>cast<Quad>\<close> fails and no sample is returned.
\<close>

theorem area_sample_defined_iff_quad:
  "((\<exists>ss. rand_light_shadow_sample rayinf (AreaLight f i s n) p u_rand v_rand = Inr ss)
      \<longleftrightarrow> (\<exists>w h. s = Some (Quad w h)))
   \<and> ((\<forall>w h. s \<noteq> Some (Quad w h)) \<longrightarrow>
        rand_light_shadow_sample rayinf (AreaLight f i s n) p u_rand v_rand = Inl INVALID_CAST)"
  by (auto simp: rand_light_shadow_sample_def Let_def split: option.splits Shape.splits)

theorem area_sample_defined_iff_quad_witness:
  "rand_light_shadow_sample 1000 (AreaLight identity_frame3f one3f None 16) zero3f 0 0
     = Inl INVALID_CAST
   \<and> rand_light_shadow_sample 1000 (AreaLight identity_frame3f one3f (Some OtherShape) 16)
        zero3f 0 0 = Inl INVALID_CAST
   \<and> (\<exists>ss. rand_light_shadow_sample 1000 (AreaLight identity_frame3f one3f (Some (Quad 2 3)) 16)
        zero3f 0 0 = Inr ss)"
  using area_sample_defined_iff_quad [of 1000 identity_frame3f one3f None 16 zero3f 0 0]
    area_sample_defined_iff_quad [of 1000 identity_frame3f one3f "Some OtherShape" 16 zero3f 0 0]
    area_sample_defined_iff_quad [of 1000 identity_frame3f one3f "Some (Quad 2 3)" 16 zero3f 0 0]
  by simp

subsection \<open>Directions below the surface\<close>

text \<open>
  C6.  For a Lambert, Phong or LambertEmission material without bound textures, every
  shading frame and every pair of directions, \<open>material_brdfcos\<close> returns the zero vector
  whenever the incoming or the outgoing direction has a non-positive dot product with the
  frame's \<open>z\<close> axis.
\<close>

theorem brdfcos_below_surface:
  assumes "material_has_textures material = Inr False"
    and "dot wi (fz fr) \<le> 0 \<or> dot wo (fz fr) \<le> 0"
  shows "material_brdfcos material fr wi wo = Inr zero3f"
  using assms
  by (cases material) (auto simp: material_brdfcos_def ERROR_IF_NOT_no_textures_def)

theorem brdfcos_below_surface_witness:
  "material_has_textures (Phong None one3f one3f 10 one3f 0 None None None None False) = Inr False
   \<and> dot (vec3f 0 0 (- 1)) (fz identity_frame3f) \<le> 0
   \<and> material_brdfcos (Phong None one3f one3f 10 one3f 0 None None None None False)
        identity_frame3f (vec3f 0 0 (- 1)) (vec3f 0 0 1) = Inr zero3f"
  using brdfcos_below_surface [of "Phong None one3f one3f 10 one3f 0 None None None None False"
      "vec3f 0 0 (- 1)" identity_frame3f "vec3f 0 0 1"]
  by (simp add: identity_frame3f_def dot_def)

subsection \<open>The texture guard of the material routines\<close>

text \<open>
  C7.  For a material with a bound texture in a slot of its variant
  (\<open>material_has_textures\<close> is true), \<open>material_diffuse_albedo\<close>, \<open>material_emission\<close>,
  \<open>material_brdfcos\<close> and the three sampling routines all fail with the error of
  \<^verbatim>\<open>ERROR_IF_NOT\<close> and return no value.
\<close>

theorem textured_material_fails:
  assumes "material_has_textures material = Inr True"
  shows "material_diffuse_albedo material = Inl (ERROR_IF_NOT ''cannot support textures'')
    \<and> material_emission material fr wo = Inl (ERROR_IF_NOT ''cannot support textures'')
    \<and> material_brdfcos material fr wi wo = Inl (ERROR_IF_NOT ''cannot support textures'')
    \<and> material_sample_reflection material fr wo = Inl (ERROR_IF_NOT ''no textures allowed'')
    \<and> material_sample_blurryreflection material fr wo suv
         = Inl (ERROR_IF_NOT ''no textures allowed'')
    \<and> material_sample_brdfcos hemisphericalcos material fr wo suv sl
         = Inl (ERROR_IF_NOT ''no textures allowed'')"
  using assms
  by (simp add: material_diffuse_albedo_def material_emission_def material_brdfcos_def
      material_sample_reflection_def material_sample_blurryreflection_def
      material_sample_brdfcos_def ERROR_IF_NOT_no_textures_def)

theorem textured_material_fails_witness:
  "material_has_textures (Lambert None one3f (Some (Texture []))) = Inr True
   \<and> material_diffuse_albedo (Lambert None one3f (Some (Texture [])))
       = Inl (ERROR_IF_NOT ''cannot support textures'')
   \<and> material_brdfcos (Lambert None one3f (Some (Texture []))) identity_frame3f z3f z3f
       = Inl (ERROR_IF_NOT ''cannot support textures'')"
  using textured_material_fails [of "Lambert None one3f (Some (Texture []))" identity_frame3f z3f z3f]
  by simp

subsection \<open>One shadow sample for each light\<close>

lemma vec3f_add_zero3f: "c + zero3f = (c::vec3f)"
  by (cases c) (simp add: zero3f_def zero_vec3f_def plus_vec3f_def)

lemma shadow_step_contribution:
  "material_brdfcos brdf fr (ss_dir ss) wo = Inr b \<Longrightarrow>
   shadow_step scene opts brdf fr wo ss n c = Inr (c + shadow_contribution scene opts fr ss b n)"
  by (simp add: shadow_step_def shadow_contribution_def Let_def vec3f_add_zero3f)

lemma for_each_const_step:
  "(\<And>x s. body x s = Inr (step s)) \<Longrightarrow> for_each body xs s = Inr ((step ^^ length xs) s)"
  by (induction xs arbitrary: s) (simp_all add: funpow_swap1)

lemma direct_light_rng:
  "direct_light rayinf scene opts brdf fr wo l (c, rng) = Inr (c', rng') \<Longrightarrow> rng' = stl (stl rng)"
  by (auto simp: direct_light_def next_float_def Let_def split: sum.splits)

lemma for_each_direct_light_rng:
  "for_each (direct_light rayinf scene opts brdf fr wo) ls (c, rng) = Inr (c', rng') \<Longrightarrow>
   rng' = sdrop (2 * length ls) rng"
proof (induction ls arbitrary: c rng)
  case Nil
  then show ?case by simp
next
  case (Cons l ls)
  from Cons.prems obtain c1 rng1 where
    step: "direct_light rayinf scene opts brdf fr wo l (c, rng) = Inr (c1, rng1)" and
    rest: "for_each (direct_light rayinf scene opts brdf fr wo) ls (c1, rng1) = Inr (c', rng')"
    by (auto split: sum.splits)
  from direct_light_rng [OF step] have "rng1 = stl (stl rng)" .
  with Cons.IH [OF rest] show ?case by simp
qed

text \<open>
  C5.  Within one estimate, the direct-lighting step draws two random numbers for each
  light of the selected group and nothing else: after the group the random source has
  advanced by twice the number of lights.  For one light, the single sample \<open>ss\<close> drawn
  from these two numbers serves every repetition of the shadow loop: the light adds the
  same \<open>shadow_contribution\<close> of that sample once per repetition.
\<close>

theorem one_shadow_sample_per_light:
  "(compute_direct rayinf scene opts brdf fr wo (c, rng) = Inr (c', rng') \<longrightarrow>
      rng' = sdrop (2 * length (if cameralights opts then cameralights_group scene
                                else lights scene)) rng)
   \<and> (rand_light_shadow_sample rayinf l (fo fr) (shd rng) (shd (stl rng)) = Inr ss
        \<and> material_brdfcos brdf fr (ss_dir ss) wo = Inr b \<longrightarrow>
      direct_light rayinf scene opts brdf fr wo l (c, rng) =
        Inr (((\<lambda>c. c + shadow_contribution scene opts fr ss b (direct_shadow_samples l))
                ^^ nat (direct_shadow_samples l)) c,
             stl (stl rng)))"
proof (intro conjI impI)
  assume "compute_direct rayinf scene opts brdf fr wo (c, rng) = Inr (c', rng')"
  then show "rng' = sdrop (2 * length (if cameralights opts then cameralights_group scene
                                else lights scene)) rng"
    unfolding compute_direct_def by (rule for_each_direct_light_rng)
next
  assume a: "rand_light_shadow_sample rayinf l (fo fr) (shd rng) (shd (stl rng)) = Inr ss
        \<and> material_brdfcos brdf fr (ss_dir ss) wo = Inr b"
  have "for_each (\<lambda>k. shadow_step scene opts brdf fr wo ss (direct_shadow_samples l))
          [0..<nat (direct_shadow_samples l)] c
        = Inr (((\<lambda>c. c + shadow_contribution scene opts fr ss b (direct_shadow_samples l))
                ^^ length [0..<nat (direct_shadow_samples l)]) c)"
    using a by (intro for_each_const_step shadow_step_contribution) simp
  with a show "direct_light rayinf scene opts brdf fr wo l (c, rng) =
        Inr (((\<lambda>c. c + shadow_contribution scene opts fr ss b (direct_shadow_samples l))
                ^^ nat (direct_shadow_samples l)) c,
             stl (stl rng))"
    by (simp add: direct_light_def next_float_def Let_def)
qed


lemma lit_scene_direct:
  "compute_direct 1000 lit_scene mirror_opts (Lambert None one3f None) identity_frame3f z3f
       (zero3f, halving_rng)
     = Inr (vec3f (2 / pi) (2 / pi) (2 / pi), siterate (\<lambda>x. x / 2) (1 / 32))"
  by (simp add: compute_direct_def lit_scene_def dark_scene_def mirror_opts_def direct_light_def
      direct_shadow_samples_def rand_light_shadow_sample_def light_shadow_sample_def
      shadow_step_def material_brdfcos_def ERROR_IF_NOT_no_textures_def next_float_def
      halving_rng_def Let_def frame_defs vec3f_defs pif_def)

lemma ceiling_light_sample:
  "rand_light_shadow_sample 1000 ceiling_light (fo identity_frame3f)
       (shd (sconst (1 / 2))) (shd (stl (sconst (1 / 2))))
     = Inr \<lparr>ss_radiance = vec3f 1 1 1, ss_dir = vec3f 0 0 1, ss_dist = 1, ss_pdf = 1\<rparr>"
  by (simp add: rand_light_shadow_sample_def ceiling_light_def Let_def frame_defs vec3f_defs)

lemma lambert_brdfcos_up:
  "material_brdfcos (Lambert None one3f None) identity_frame3f (vec3f 0 0 1) z3f
     = Inr (vec3f (1 / pi) (1 / pi) (1 / pi))"
  by (simp add: material_brdfcos_def ERROR_IF_NOT_no_textures_def identity_frame3f_def
      vec3f_defs pif_def)

theorem one_shadow_sample_per_light_witness:
  "compute_direct 1000 lit_scene mirror_opts (Lambert None one3f None) identity_frame3f z3f
       (zero3f, halving_rng)
     = Inr (vec3f (2 / pi) (2 / pi) (2 / pi), siterate (\<lambda>x. x / 2) (1 / 32))
   \<and> siterate (\<lambda>x. x / 2) (1 / 32) = sdrop (2 * length (lights lit_scene)) halving_rng
   \<and> rand_light_shadow_sample 1000 ceiling_light (fo identity_frame3f)
       (shd (sconst (1 / 2))) (shd (stl (sconst (1 / 2))))
     = Inr \<lparr>ss_radiance = vec3f 1 1 1, ss_dir = vec3f 0 0 1, ss_dist = 1, ss_pdf = 1\<rparr>
   \<and> material_brdfcos (Lambert None one3f None) identity_frame3f (vec3f 0 0 1) z3f
     = Inr (vec3f (1 / pi) (1 / pi) (1 / pi))
   \<and> direct_light 1000 dark_scene mirror_opts (Lambert None one3f None) identity_frame3f z3f
       ceiling_light (zero3f, sconst (1 / 2))
     = Inr (vec3f (1 / pi) (1 / pi) (1 / pi), sconst (1 / 2))"
  using one_shadow_sample_per_light [where rayinf = 1000 and scene = lit_scene
      and opts = mirror_opts and brdf = "Lambert None one3f None" and fr = identity_frame3f
      and wo = z3f and c = zero3f and rng = halving_rng
      and c' = "vec3f (2 / pi) (2 / pi) (2 / pi)" and rng' = "siterate (\<lambda>x. x / 2) (1 / 32)",
      THEN conjunct1]
    one_shadow_sample_per_light [where rayinf = 1000 and scene = dark_scene
      and opts = mirror_opts and brdf = "Lambert None one3f None" and fr = identity_frame3f
      and wo = z3f and c = zero3f and rng = "sconst (1 / 2)" and l = ceiling_light
      and ss = "\<lparr>ss_radiance = vec3f 1 1 1, ss_dir = vec3f 0 0 1, ss_dist = 1, ss_pdf = 1\<rparr>"
      and b = "vec3f (1 / pi) (1 / pi) (1 / pi)", THEN conjunct2]
    lit_scene_direct ceiling_light_sample lambert_brdfcos_up
  by (simp add: mirror_opts_def lit_scene_def dark_scene_def ceiling_light_def
      direct_shadow_samples_def shadow_contribution_def eval_nat_numeral Let_def vec3f_defs)

subsection \<open>Termination and depth of the specular recursion\<close>

lemma reflection_call_decreases:
  "dist_raytrace_scene_ray_rel callee caller \<Longrightarrow>
   (callee, caller) \<in> measure (\<lambda>(rayinf, scene, ray, opts, rng, depth). nat (max_depth opts - depth))"
  by (erule dist_raytrace_scene_ray_rel.cases) auto

lemma reflection_calls_wellfounded: "wfp dist_raytrace_scene_ray_rel"
  unfolding wfp_def
  by (rule wf_subset [OF wf_measure]) (auto dest: reflection_call_decreases)

lemma reflection_call_depth:
  "dist_raytrace_scene_ray_rel (rayinf', scene', ray', opts', rng', depth')
     (rayinf, scene, ray, opts, rng, depth) \<Longrightarrow>
   opts' = opts \<and> depth' = depth + 1 \<and> depth < max_depth opts"
  by (erule dist_raytrace_scene_ray_rel.cases) auto

lemma reflection_calls_depth:
  "dist_raytrace_scene_ray_rel\<^sup>*\<^sup>* callee caller \<Longrightarrow>
   fst (snd (snd (snd callee))) = fst (snd (snd (snd caller)))
   \<and> snd (snd (snd (snd (snd caller)))) \<le> snd (snd (snd (snd (snd callee))))
   \<and> snd (snd (snd (snd (snd callee))))
       \<le> max (snd (snd (snd (snd (snd caller))))) (max_depth (fst (snd (snd (snd caller)))))"
proof (induction rule: converse_rtranclp_induct)
  case base
  then show ?case by simp
next
  case (step y z)
  obtain r1 s1 ry1 o1 g1 d1 where y: "y = (r1, s1, ry1, o1, g1, d1)" by (cases y) auto
  obtain r2 s2 ry2 o2 g2 d2 where z: "z = (r2, s2, ry2, o2, g2, d2)" by (cases z) auto
  from step.hyps(1) have "o1 = o2 \<and> d1 = d2 + 1 \<and> d2 < max_depth o2"
    unfolding y z by (rule reflection_call_depth)
  with step.IH show ?case by (auto simp: y z)
qed

lemma no_reflection_at_max_depth:
  "max_depth opts \<le> depth \<Longrightarrow>
   dist_raytrace_scene_ray rayinf scene ray opts rng depth =
     (case intersect_scene_first scene ray of
        None \<Rightarrow> Inr (background opts, rng)
      | Some isect \<Rightarrow>
          (case shade_hit rayinf scene ray opts isect rng of
             Inl e \<Rightarrow> Inl e
           | Inr (ctx, c, rng') \<Rightarrow> Inr (c, rng')))"
  by (subst dist_raytrace_scene_ray.simps) (auto split: option.splits sum.splits)

text \<open>
  C3.  The relation \<open>dist_raytrace_scene_ray_rel callee caller\<close> is derived from the
  defining equation of the integrator: it holds iff the body, run on the arguments
  \<open>caller\<close>, makes the recursive call with the arguments \<open>callee\<close>.
  \<^item> Every tuple of arguments is accessible in this relation: no chain of recursive calls
    is infinite, and the integrator returns for every scene, ray, options, random source
    and depth.
  \<^item> At \<open>max_depth opts \<le> depth\<close>, in particular at depth 0 with \<open>max_depth = 0\<close>, the
    result is the background or the sum \<open>c\<close> of the ambient, emission and direct terms;
    \<open>material_sample_reflection\<close> is not consulted and nothing is added for it.
  \<^item> Every call that is reached from a call at \<open>depth\<close> runs at a depth between \<open>depth\<close>
    and the larger of \<open>depth\<close> and \<open>max_depth opts\<close>; from depth 0 and \<open>max_depth = N \<ge> 0\<close>
    the depth never exceeds \<open>N\<close>.
  In the witness every ray hits a mirror and the mirror sample is nonzero at every level;
  with \<open>max_depth = 2\<close> the estimate is the sum of exactly three levels.
\<close>

theorem reflection_recursion_bounded:
  "dist_raytrace_scene_ray_dom (rayinf, scene, ray, opts, rng, depth)
   \<and> (max_depth opts \<le> depth \<longrightarrow>
        dist_raytrace_scene_ray rayinf scene ray opts rng depth =
          (case intersect_scene_first scene ray of
             None \<Rightarrow> Inr (background opts, rng)
           | Some isect \<Rightarrow>
               (case shade_hit rayinf scene ray opts isect rng of
                  Inl e \<Rightarrow> Inl e
                | Inr (ctx, c, rng') \<Rightarrow> Inr (c, rng'))))
   \<and> (dist_raytrace_scene_ray_rel\<^sup>*\<^sup>* (rayinf', scene', ray', opts', rng', depth')
          (rayinf, scene, ray, opts, rng, depth) \<longrightarrow>
        depth \<le> depth' \<and> depth' \<le> max depth (max_depth opts))"
proof (intro conjI impI)
  show "dist_raytrace_scene_ray_dom (rayinf, scene, ray, opts, rng, depth)"
    by (rule accp_wfpD [OF reflection_calls_wellfounded])
next
  assume "max_depth opts \<le> depth"
  then show "dist_raytrace_scene_ray rayinf scene ray opts rng depth =
          (case intersect_scene_first scene ray of
             None \<Rightarrow> Inr (background opts, rng)
           | Some isect \<Rightarrow>
               (case shade_hit rayinf scene ray opts isect rng of
                  Inl e \<Rightarrow> Inl e
                | Inr (ctx, c, rng') \<Rightarrow> Inr (c, rng')))"
    by (rule no_reflection_at_max_depth)
next
  assume a: "dist_raytrace_scene_ray_rel\<^sup>*\<^sup>* (rayinf', scene', ray', opts', rng', depth')
          (rayinf, scene, ray, opts, rng, depth)"
  from reflection_calls_depth [OF a] show "depth \<le> depth'" by simp
  from reflection_calls_depth [OF a] show "depth' \<le> max depth (max_depth opts)" by simp
qed

lemma mirror_opts_fields:
  "reflections mirror_opts" "max_depth mirror_opts = 2"
  by (simp_all add: mirror_opts_def)

lemma fo_identity_frame3f: "fo identity_frame3f = zero3f"
  by (simp add: identity_frame3f_def zero3f_def zero_vec3f_def)

lemma one3f_neq_zero3f: "one3f \<noteq> zero3f"
  by (simp add: one3f_def zero3f_def one_vec3f_def zero_vec3f_def)

lemma mirror_first:
  "intersect_scene_first mirror_scene (ray3f zero3f (vec3f 0 0 s))
   = Some \<lparr>is_frame = identity_frame3f\<lparr>fz := - vec3f 0 0 s\<rparr>, is_texcoord = vec2f 0 0,
           is_material = textured_mirror\<rparr>"
  by (simp add: mirror_scene_def)

lemma mirror_shade_hit:
  "shade_hit 1000 mirror_scene (ray3f zero3f (vec3f 0 0 s)) mirror_opts
      \<lparr>is_frame = identity_frame3f\<lparr>fz := - vec3f 0 0 s\<rparr>, is_texcoord = vec2f 0 0,
       is_material = textured_mirror\<rparr> rng
   = Inr ((identity_frame3f\<lparr>fz := - vec3f 0 0 s\<rparr>, - vec3f 0 0 s,
           Phong None one3f one3f 10 one3f 0 None None None None False), vec3f 1 1 1, rng)"
  by (simp add: shade_hit_def mirror_scene_def dark_scene_def mirror_opts_def textured_mirror_def
      compute_ambient_def compute_direct_def material_shading_frame_def
      material_diffuse_albedo_def material_emission_def ERROR_IF_NOT_no_textures_def
      Let_def zero3f_def one3f_def zero_vec3f_def one_vec3f_def plus_vec3f_def times_vec3f_def)

lemma mirror_reflection:
  "s * s = 1 \<Longrightarrow>
   material_sample_reflection (Phong None one3f one3f 10 one3f 0 None None None None False)
      (identity_frame3f\<lparr>fz := - vec3f 0 0 s\<rparr>) (- vec3f 0 0 s)
   = Inr \<lparr>bs_brdfcos = one3f, bs_wi = vec3f 0 0 (- s), bs_pdf = 1\<rparr>"
  by (simp add: material_sample_reflection_def ERROR_IF_NOT_no_textures_def reflect_def
      identity_frame3f_def vec3f_defs)

lemma mirror_level_2:
  "dist_raytrace_scene_ray 1000 mirror_scene (ray3f zero3f (vec3f 0 0 s)) mirror_opts rng 2
     = Inr (vec3f 1 1 1, rng)"
  by (subst dist_raytrace_scene_ray.simps)
    (simp add: mirror_first mirror_shade_hit mirror_opts_fields)

lemma mirror_level_1:
  "s * s = 1 \<Longrightarrow>
   dist_raytrace_scene_ray 1000 mirror_scene (ray3f zero3f (vec3f 0 0 s)) mirror_opts rng 1
     = Inr (vec3f 2 2 2, rng)"
  by (subst dist_raytrace_scene_ray.simps)
    (simp add: mirror_first mirror_shade_hit mirror_reflection mirror_level_2
      mirror_opts_fields fo_identity_frame3f one3f_neq_zero3f,
      simp add: one3f_def one_vec3f_def plus_vec3f_def times_vec3f_def)

lemma mirror_level_0:
  "s * s = 1 \<Longrightarrow>
   dist_raytrace_scene_ray 1000 mirror_scene (ray3f zero3f (vec3f 0 0 s)) mirror_opts rng 0
     = Inr (vec3f 3 3 3, rng)"
  by (subst dist_raytrace_scene_ray.simps)
    (simp add: mirror_first mirror_shade_hit mirror_reflection mirror_level_1
      mirror_opts_fields fo_identity_frame3f one3f_neq_zero3f,
      simp add: one3f_def one_vec3f_def plus_vec3f_def times_vec3f_def)

lemma mirror_call:
  "dist_raytrace_scene_ray_rel
     (1000, mirror_scene, ray3f zero3f (vec3f 0 0 (- 1)), mirror_opts, rng, 0 + 1)
     (1000, mirror_scene, ray3f zero3f (vec3f 0 0 1), mirror_opts, rng, 0)"
  apply (rule dist_raytrace_scene_ray_rel.intros)
           apply (rule mirror_first)
          apply (rule mirror_shade_hit)
         apply (rule refl)
        apply (rule refl)
       apply (rule refl)
      apply (rule refl)
     apply (simp add: mirror_opts_fields)
    apply (rule mirror_reflection)
    apply simp
   apply (simp add: one3f_neq_zero3f)
  apply (simp add: fo_identity_frame3f)
  done

theorem reflection_recursion_bounded_witness:
  "dist_raytrace_scene_ray_rel\<^sup>*\<^sup>*
       (1000, mirror_scene, ray3f zero3f (vec3f 0 0 (- 1)), mirror_opts, halving_rng, 1)
       (1000, mirror_scene, ray3f zero3f (vec3f 0 0 1), mirror_opts, halving_rng, 0)
   \<and> (1::int) \<le> max 0 (max_depth mirror_opts)
   \<and> max_depth mirror_opts \<le> 2
   \<and> dist_raytrace_scene_ray 1000 mirror_scene (ray3f zero3f (vec3f 0 0 1)) mirror_opts
         halving_rng 2
       = Inr (vec3f 1 1 1, halving_rng)
   \<and> dist_raytrace_scene_ray 1000 mirror_scene (ray3f zero3f (vec3f 0 0 1)) mirror_opts
         halving_rng 0
       = Inr (vec3f 3 3 3, halving_rng)
   \<and> dist_raytrace_scene_ray_dom
       (1000, mirror_scene, ray3f zero3f (vec3f 0 0 1), mirror_opts, halving_rng, 0)"
  using reflection_recursion_bounded [of 1000 mirror_scene "ray3f zero3f (vec3f 0 0 1)"
      mirror_opts halving_rng 0 1000 mirror_scene "ray3f zero3f (vec3f 0 0 (- 1))" mirror_opts
      halving_rng 1]
    reflection_recursion_bounded [of 1000 mirror_scene "ray3f zero3f (vec3f 0 0 1)" mirror_opts
      halving_rng 2]
    mirror_call [of halving_rng] mirror_level_0 [of 1 halving_rng]
  by (simp add: mirror_first mirror_shade_hit mirror_opts_fields)

subsection \<open>The resolved material passes the texture guards\<close>

















subsection \<open>Progressive accumulation\<close>

lemma for_each_abstraction:
  assumes "\<And>x t. body x (\<alpha> t) = map_sum id \<alpha> (body' x t)"
  shows "for_each body xs (\<alpha> t) = map_sum id \<alpha> (for_each body' xs t)"
proof (induction xs arbitrary: t)
  case Nil
  show ?case by simp
next
  case (Cons x xs)
  show ?case
  proof (cases "body' x t")
    case (Inl e)
    then show ?thesis by (simp add: assms)
  next
    case (Inr t')
    then show ?thesis by (simp add: assms Cons.IH)
  qed
qed

lemma sample_pixel_abstraction:
  "sample_pixel rayinf scene opts w h i j
      ((\<lambda>(tr, rng). (foldl accumulate buffer tr, rng)) t)
   = map_sum id (\<lambda>(tr, rng). (foldl accumulate buffer tr, rng))
       (record_sample rayinf scene opts w h i j t)"
  by (cases t) (simp add: sample_pixel_def record_sample_def split: sum.splits)

lemma driver_accumulates_pass_samples:
  "dist_raytrace_scene_progressive rayinf scene opts (buffer, rng) =
     map_sum id (\<lambda>(tr, rng'). (foldl accumulate buffer tr, rng'))
       (pass_samples rayinf scene opts (buf_width buffer) (buf_height buffer) ([], rng))"
proof -
  let ?\<alpha> = "\<lambda>(tr, rng). (foldl accumulate buffer tr, rng)"
  have "for_each (\<lambda>j.
          for_each (\<lambda>i.
            for_each (\<lambda>k. sample_pixel rayinf scene opts (buf_width buffer) (buf_height buffer) i j)
              [0..<nat (samples opts)])
            [0..<buf_width buffer])
          [0..<buf_height buffer] (?\<alpha> ([], rng))
      = map_sum id ?\<alpha> (pass_samples rayinf scene opts (buf_width buffer) (buf_height buffer)
          ([], rng))"
    unfolding pass_samples_def
    by (intro for_each_abstraction sample_pixel_abstraction)
  then show ?thesis
    by (simp add: dist_raytrace_scene_progressive_def Let_def)
qed


lemma record_sample_pixels:
  "record_sample rayinf scene opts w h i j (tr, rng) = Inr (tr', rng') \<Longrightarrow>
   map fst tr' = map fst tr @ [(i, h - 1 - j)]"
  by (auto simp: record_sample_def split: sum.splits)

lemma for_each_pixels:
  assumes "\<And>x tr rng tr' rng'. body x (tr, rng) = Inr (tr', rng') \<Longrightarrow>
             map fst tr' = map fst tr @ g x"
  shows "for_each body xs (tr, rng) = Inr (tr', rng') \<Longrightarrow>
         map fst tr' = map fst tr @ concat (map g xs)"
proof (induction xs arbitrary: tr rng)
  case Nil
  then show ?case by simp
next
  case (Cons x xs)
  from Cons.prems obtain tr1 rng1 where
    step: "body x (tr, rng) = Inr (tr1, rng1)" and
    rest: "for_each body xs (tr1, rng1) = Inr (tr', rng')"
    by (auto split: sum.splits)
  from assms [OF step] Cons.IH [OF rest] show ?case by simp
qed

lemma pixel_loop_pixels:
  "for_each (\<lambda>k. record_sample rayinf scene opts w h i j) ks (tr, rng) = Inr (tr', rng') \<Longrightarrow>
   map fst tr' = map fst tr @ replicate (length ks) (i, h - 1 - j)"
proof (induction ks arbitrary: tr rng)
  case Nil
  then show ?case by simp
next
  case (Cons k ks)
  from Cons.prems obtain tr1 rng1 where
    step: "record_sample rayinf scene opts w h i j (tr, rng) = Inr (tr1, rng1)" and
    rest: "for_each (\<lambda>k. record_sample rayinf scene opts w h i j) ks (tr1, rng1) = Inr (tr', rng')"
    by (auto split: sum.splits)
  from record_sample_pixels [OF step] Cons.IH [OF rest] show ?case
    by (simp add: replicate_app_Cons_same)
qed

lemma row_loop_pixels:
  assumes "for_each (\<lambda>i. for_each (\<lambda>k. record_sample rayinf scene opts w h i j) [0..<n]) is
             (tr, rng) = Inr (tr', rng')"
  shows "map fst tr' = map fst tr @ concat (map (\<lambda>i. replicate n (i, h - 1 - j)) is)"
proof (rule for_each_pixels [where g = "\<lambda>i. replicate n (i, h - 1 - j)", OF _ assms])
  fix i tr rng tr' rng'
  assume "for_each (\<lambda>k. record_sample rayinf scene opts w h i j) [0..<n] (tr, rng) = Inr (tr', rng')"
  from pixel_loop_pixels [OF this] show "map fst tr' = map fst tr @ replicate n (i, h - 1 - j)"
    by simp
qed

lemma pass_samples_pixels:
  assumes "pass_samples rayinf scene opts w h ([], rng) = Inr (tr, rng')"
  shows "map fst tr = pass_pixels w h (nat (samples opts))"
proof -
  have "map fst tr = map fst ([] :: ((nat \<times> nat) \<times> vec3f) list) @
      concat (map (\<lambda>j. concat (map (\<lambda>i. replicate (nat (samples opts)) (i, h - 1 - j)) [0..<w]))
        [0..<h])"
  proof (rule for_each_pixels [where
        g = "\<lambda>j. concat (map (\<lambda>i. replicate (nat (samples opts)) (i, h - 1 - j)) [0..<w])",
        OF _ assms [unfolded pass_samples_def]])
    fix j tr rng tr' rng'
    assume "for_each (\<lambda>i. for_each (\<lambda>k. record_sample rayinf scene opts w h i j)
               [0..<nat (samples opts)]) [0..<w] (tr, rng) = Inr (tr', rng')"
    then show "map fst tr' = map fst tr
        @ concat (map (\<lambda>i. replicate (nat (samples opts)) (i, h - 1 - j)) [0..<w])"
      by (rule row_loop_pixels)
  qed
  then show ?thesis by (simp add: pass_pixels_def)
qed

lemma sum_list_single:
  "sum_list (map (\<lambda>i. if i = a then c else 0) [0..<n]) = (if a < n then c else (0::nat))"
  by (induction n) auto

lemma length_filter_concat:
  "length (filter P (concat (map f xs))) = sum_list (map (\<lambda>x. length (filter P (f x))) xs)"
  by (induction xs) auto

lemma count_pass_pixels:
  "length (filter (\<lambda>q. q = (i0, j0)) (pass_pixels w h n)) = (if i0 < w \<and> j0 < h then n else 0)"
proof -
  have row: "length (filter (\<lambda>q. q = (i0, j0)) (concat (map (\<lambda>i. replicate n (i, h - 1 - j)) [0..<w])))
      = (if i0 < w \<and> h - 1 - j = j0 then n else 0)" for j
  proof -
    have "length (filter (\<lambda>q. q = (i0, j0)) (concat (map (\<lambda>i. replicate n (i, h - 1 - j)) [0..<w])))
      = sum_list (map (\<lambda>i. length (filter (\<lambda>q. q = (i0, j0)) (replicate n (i, h - 1 - j)))) [0..<w])"
      by (rule length_filter_concat)
    also have "\<dots> = sum_list (map (\<lambda>i. if i = i0 then (if h - 1 - j = j0 then n else 0) else 0) [0..<w])"
      by (rule arg_cong [where f = sum_list], rule map_cong) auto
    also have "\<dots> = (if i0 < w then (if h - 1 - j = j0 then n else 0) else 0)"
      by (rule sum_list_single)
    finally show ?thesis by simp
  qed
  have "length (filter (\<lambda>q. q = (i0, j0)) (pass_pixels w h n))
      = sum_list (map (\<lambda>j. length (filter (\<lambda>q. q = (i0, j0))
          (concat (map (\<lambda>i. replicate n (i, h - 1 - j)) [0..<w])))) [0..<h])"
    unfolding pass_pixels_def by (rule length_filter_concat)
  also have "\<dots> = sum_list (map (\<lambda>j. if i0 < w \<and> h - 1 - j = j0 then n else 0) [0..<h])"
    by (simp only: row)
  also have "\<dots> = sum_list (map (\<lambda>j. if j = h - 1 - j0 then (if i0 < w \<and> j0 < h then n else 0) else 0)
      [0..<h])"
    by (rule arg_cong [where f = sum_list], rule map_cong) auto
  also have "\<dots> = (if h - 1 - j0 < h then (if i0 < w \<and> j0 < h then n else 0) else 0)"
    by (rule sum_list_single)
  finally show ?thesis by auto
qed

lemma radiances_at_length:
  "length (radiances_at tr p) = length (filter (\<lambda>q. q = p) (map fst tr))"
  by (simp add: radiances_at_def filter_map comp_def)

lemma foldl_accumulate_dims:
  "buf_width (foldl accumulate buffer tr) = buf_width buffer
   \<and> buf_height (foldl accumulate buffer tr) = buf_height buffer"
  by (induction tr arbitrary: buffer) (auto simp: accumulate_def)

lemma foldl_accumulate_pixel:
  "buf_accum (foldl accumulate buffer tr) p = foldl (+) (buf_accum buffer p) (radiances_at tr p)
   \<and> buf_samples (foldl accumulate buffer tr) p
       = buf_samples buffer p + int (length (radiances_at tr p))"
  by (induction tr arbitrary: buffer) (auto simp: accumulate_def radiances_at_def)


lemma pass_of_driver:
  assumes "dist_raytrace_scene_progressive rayinf scene opts (buffer, rng) = Inr (buffer', rng')"
  obtains tr where
    "pass_samples rayinf scene opts (buf_width buffer) (buf_height buffer) ([], rng)
       = Inr (tr, rng')"
    and "buffer' = foldl accumulate buffer tr"
proof (cases "pass_samples rayinf scene opts (buf_width buffer) (buf_height buffer) ([], rng)")
  case (Inl e)
  with assms show ?thesis by (simp add: driver_accumulates_pass_samples)
next
  case (Inr r)
  obtain tr g where r: "r = (tr, g)" by (cases r)
  from assms Inr r have "buffer' = foldl accumulate buffer tr" and "g = rng'"
    by (simp_all add: driver_accumulates_pass_samples)
  with Inr r that show ?thesis by simp
qed

lemma pass_radiances_of_samples:
  "pass_samples rayinf scene opts w h ([], rng) = Inr (tr, rng') \<Longrightarrow>
   pass_radiances rayinf scene opts w h rng p = radiances_at tr p"
  by (simp add: pass_radiances_def)

lemma pass_radiances_length:
  assumes "pass_samples rayinf scene opts w h ([], rng) = Inr (tr, rng')"
  shows "length (radiances_at tr (i, j)) = (if i < w \<and> j < h then nat (samples opts) else 0)"
  by (simp only: radiances_at_length pass_samples_pixels [OF assms] count_pass_pixels)

text \<open>
  C8.  A pass of the driver with \<open>S1 \<ge> 0\<close> samples for each pixel only adds to the buffer:
  the sample count of every pixel of the image grows by exactly \<open>S1\<close> (and by nothing
  outside the image), the pass draws \<open>S1\<close> radiances for each pixel, and the running sum
  of a pixel is the old sum with these radiances added one after the other.  Hence a pass
  of \<open>S1\<close> samples followed by a pass of \<open>S2\<close> samples, which continues with the random
  source the first pass left, yields the same sums and counts as one pass of \<open>S1 + S2\<close>
  samples that draws, for each pixel, the radiances of the first pass followed by those
  of the second.
\<close>

theorem progressive_accumulation:
  assumes pass1: "dist_raytrace_scene_progressive rayinf scene (opts\<lparr>samples := S1\<rparr>)
                    (buffer, rng) = Inr (buffer1, rng1)"
    and pass2: "dist_raytrace_scene_progressive rayinf scene (opts\<lparr>samples := S2\<rparr>)
                    (buffer1, rng1) = Inr (buffer2, rng2)"
    and single: "dist_raytrace_scene_progressive rayinf scene (opts\<lparr>samples := S1 + S2\<rparr>)
                    (buffer, rng0) = Inr (buffer12, rng12)"
    and same: "\<forall>p. pass_radiances rayinf scene (opts\<lparr>samples := S1 + S2\<rparr>)
                      (buf_width buffer) (buf_height buffer) rng0 p
                  = pass_radiances rayinf scene (opts\<lparr>samples := S1\<rparr>)
                      (buf_width buffer) (buf_height buffer) rng p
                  @ pass_radiances rayinf scene (opts\<lparr>samples := S2\<rparr>)
                      (buf_width buffer) (buf_height buffer) rng1 p"
    and nonneg: "0 \<le> S1"
  shows "(\<forall>i j. buf_samples buffer1 (i, j)
                 = buf_samples buffer (i, j)
                   + (if i < buf_width buffer \<and> j < buf_height buffer then S1 else 0))
       \<and> (\<forall>p. buf_accum buffer1 p
               = foldl (+) (buf_accum buffer p)
                   (pass_radiances rayinf scene (opts\<lparr>samples := S1\<rparr>)
                      (buf_width buffer) (buf_height buffer) rng p))
       \<and> (\<forall>i j. length (pass_radiances rayinf scene (opts\<lparr>samples := S1\<rparr>)
                          (buf_width buffer) (buf_height buffer) rng (i, j))
                 = (if i < buf_width buffer \<and> j < buf_height buffer then nat S1 else 0))
       \<and> buf_accum buffer2 = buf_accum buffer12
       \<and> buf_samples buffer2 = buf_samples buffer12"
proof -
  from pass1 obtain tr1 where
    ps1: "pass_samples rayinf scene (opts\<lparr>samples := S1\<rparr>) (buf_width buffer) (buf_height buffer)
            ([], rng) = Inr (tr1, rng1)"
    and b1: "buffer1 = foldl accumulate buffer tr1"
    by (rule pass_of_driver)
  have dims: "buf_width buffer1 = buf_width buffer" "buf_height buffer1 = buf_height buffer"
    by (simp_all add: b1 foldl_accumulate_dims)
  from pass2 obtain tr2 where
    ps2: "pass_samples rayinf scene (opts\<lparr>samples := S2\<rparr>) (buf_width buffer) (buf_height buffer)
            ([], rng1) = Inr (tr2, rng2)"
    and b2: "buffer2 = foldl accumulate buffer1 tr2"
    by (rule pass_of_driver [where buffer = buffer1, unfolded dims])
  from single obtain tr12 where
    ps12: "pass_samples rayinf scene (opts\<lparr>samples := S1 + S2\<rparr>) (buf_width buffer)
            (buf_height buffer) ([], rng0) = Inr (tr12, rng12)"
    and b12: "buffer12 = foldl accumulate buffer tr12"
    by (rule pass_of_driver)
  have r1: "pass_radiances rayinf scene (opts\<lparr>samples := S1\<rparr>) (buf_width buffer)
      (buf_height buffer) rng p = radiances_at tr1 p" for p
    by (rule pass_radiances_of_samples [OF ps1])
  have r2: "pass_radiances rayinf scene (opts\<lparr>samples := S2\<rparr>) (buf_width buffer)
      (buf_height buffer) rng1 p = radiances_at tr2 p" for p
    by (rule pass_radiances_of_samples [OF ps2])
  have r12: "pass_radiances rayinf scene (opts\<lparr>samples := S1 + S2\<rparr>) (buf_width buffer)
      (buf_height buffer) rng0 p = radiances_at tr12 p" for p
    by (rule pass_radiances_of_samples [OF ps12])
  have split: "radiances_at tr12 p = radiances_at tr1 p @ radiances_at tr2 p" for p
    using same [rule_format, of p] by (simp only: r1 r2 r12)
  have len1: "length (radiances_at tr1 (i, j))
      = (if i < buf_width buffer \<and> j < buf_height buffer then nat S1 else 0)" for i j
    using pass_radiances_length [OF ps1, of i j] by simp
  have samples1: "buf_samples buffer1 (i, j) = buf_samples buffer (i, j)
      + (if i < buf_width buffer \<and> j < buf_height buffer then S1 else 0)" for i j
    using nonneg by (simp add: b1 foldl_accumulate_pixel len1)
  have accum1: "buf_accum buffer1 p = foldl (+) (buf_accum buffer p) (radiances_at tr1 p)" for p
    by (simp add: b1 foldl_accumulate_pixel)
  have accum2: "buf_accum buffer2 p = buf_accum buffer12 p" for p
    by (simp add: b2 b12 accum1 foldl_accumulate_pixel split)
  have samples2: "buf_samples buffer2 p = buf_samples buffer12 p" for p
    by (simp add: b1 b2 b12 foldl_accumulate_pixel split)
  show ?thesis
    using samples1 accum1 len1 accum2 samples2 by (auto simp: r1)
qed


lemma dark_scene_estimate:
  "dist_raytrace_scene_ray rayinf dark_scene ray opts rng depth = Inr (background opts, rng)"
  by (subst dist_raytrace_scene_ray.simps) (simp add: dark_scene_def)

lemma dark_scene_record_sample:
  "record_sample rayinf dark_scene opts w h i j (tr, rng)
     = Inr (tr @ [((i, h - 1 - j), background opts)], stl (stl rng))"
  by (simp add: record_sample_def draw_sample_def next_float_def Let_def dark_scene_estimate)
    (simp add: dark_scene_def)

lemma dark_scene_pass_1:
  "pass_samples 1000 dark_scene (sky_opts\<lparr>samples := 1\<rparr>) 2 (Suc 0) ([], rng)
     = Inr ([((0, 0), vec3f 1 2 3), ((1, 0), vec3f 1 2 3)], sdrop 4 rng)"
  by (simp add: pass_samples_def dark_scene_record_sample upt_rec sky_opts_def eval_nat_numeral)

lemma dark_scene_pass_2:
  "pass_samples 1000 dark_scene (sky_opts\<lparr>samples := 2\<rparr>) 2 (Suc 0) ([], rng)
     = Inr ([((0, 0), vec3f 1 2 3), ((0, 0), vec3f 1 2 3),
             ((1, 0), vec3f 1 2 3), ((1, 0), vec3f 1 2 3)], sdrop 8 rng)"
  by (simp add: pass_samples_def dark_scene_record_sample upt_rec sky_opts_def eval_nat_numeral)

lemma dark_scene_pass_3:
  "pass_samples 1000 dark_scene (sky_opts\<lparr>samples := 3\<rparr>) 2 (Suc 0) ([], rng)
     = Inr ([((0, 0), vec3f 1 2 3), ((0, 0), vec3f 1 2 3), ((0, 0), vec3f 1 2 3),
             ((1, 0), vec3f 1 2 3), ((1, 0), vec3f 1 2 3), ((1, 0), vec3f 1 2 3)],
            sdrop 12 rng)"
  by (simp add: pass_samples_def dark_scene_record_sample upt_rec sky_opts_def eval_nat_numeral)

lemma accumulate_dims:
  "buf_width (accumulate b e) = buf_width b"
  "buf_height (accumulate b e) = buf_height b"
  by (cases e, simp add: accumulate_def)+

theorem progressive_accumulation_witness:
  "dist_raytrace_scene_progressive 1000 dark_scene (sky_opts\<lparr>samples := 1\<rparr>)
       (blank_buffer, halving_rng)
     = Inr (foldl accumulate blank_buffer [((0, 0), vec3f 1 2 3), ((1, 0), vec3f 1 2 3)],
            sdrop 4 halving_rng)
   \<and> (0::int) \<le> 1
   \<and> buf_samples (foldl accumulate blank_buffer [((0, 0), vec3f 1 2 3), ((1, 0), vec3f 1 2 3)])
        (1, 0) = 1
   \<and> buf_accum (foldl accumulate blank_buffer [((0, 0), vec3f 1 2 3), ((1, 0), vec3f 1 2 3)])
        (1, 0) = vec3f 1 2 3
   \<and> buf_accum (foldl accumulate
        (foldl accumulate blank_buffer [((0, 0), vec3f 1 2 3), ((1, 0), vec3f 1 2 3)])
        [((0, 0), vec3f 1 2 3), ((0, 0), vec3f 1 2 3),
         ((1, 0), vec3f 1 2 3), ((1, 0), vec3f 1 2 3)])
     = buf_accum (foldl accumulate blank_buffer
        [((0, 0), vec3f 1 2 3), ((0, 0), vec3f 1 2 3), ((0, 0), vec3f 1 2 3),
         ((1, 0), vec3f 1 2 3), ((1, 0), vec3f 1 2 3), ((1, 0), vec3f 1 2 3)])
   \<and> buf_samples (foldl accumulate
        (foldl accumulate blank_buffer [((0, 0), vec3f 1 2 3), ((1, 0), vec3f 1 2 3)])
        [((0, 0), vec3f 1 2 3), ((0, 0), vec3f 1 2 3),
         ((1, 0), vec3f 1 2 3), ((1, 0), vec3f 1 2 3)])
     = buf_samples (foldl accumulate blank_buffer
        [((0, 0), vec3f 1 2 3), ((0, 0), vec3f 1 2 3), ((0, 0), vec3f 1 2 3),
         ((1, 0), vec3f 1 2 3), ((1, 0), vec3f 1 2 3), ((1, 0), vec3f 1 2 3)])"
proof -
  let ?tr1 = "[((0::nat, 0::nat), vec3f 1 2 3), ((1, 0), vec3f 1 2 3)]"
  let ?tr2 = "[((0::nat, 0::nat), vec3f 1 2 3), ((0, 0), vec3f 1 2 3),
               ((1, 0), vec3f 1 2 3), ((1, 0), vec3f 1 2 3)]"
  let ?tr12 = "[((0::nat, 0::nat), vec3f 1 2 3), ((0, 0), vec3f 1 2 3), ((0, 0), vec3f 1 2 3),
                ((1, 0), vec3f 1 2 3), ((1, 0), vec3f 1 2 3), ((1, 0), vec3f 1 2 3)]"
  have bw: "buf_width blank_buffer = 2" "buf_height blank_buffer = 1"
    by (simp_all add: blank_buffer_def)
  have p1: "dist_raytrace_scene_progressive 1000 dark_scene (sky_opts\<lparr>samples := 1\<rparr>)
       (blank_buffer, halving_rng) = Inr (foldl accumulate blank_buffer ?tr1, sdrop 4 halving_rng)"
    by (simp add: driver_accumulates_pass_samples bw dark_scene_pass_1)
  have p2: "dist_raytrace_scene_progressive 1000 dark_scene (sky_opts\<lparr>samples := 2\<rparr>)
       (foldl accumulate blank_buffer ?tr1, sdrop 4 halving_rng)
     = Inr (foldl accumulate (foldl accumulate blank_buffer ?tr1) ?tr2,
            sdrop 8 (sdrop 4 halving_rng))"
    by (simp add: driver_accumulates_pass_samples accumulate_dims bw dark_scene_pass_2)
  have p12: "dist_raytrace_scene_progressive 1000 dark_scene (sky_opts\<lparr>samples := 1 + 2\<rparr>)
       (blank_buffer, halving_rng) = Inr (foldl accumulate blank_buffer ?tr12, sdrop 12 halving_rng)"
    by (simp add: driver_accumulates_pass_samples bw dark_scene_pass_3)
  have same: "\<forall>p. pass_radiances 1000 dark_scene (sky_opts\<lparr>samples := 1 + 2\<rparr>)
                      (buf_width blank_buffer) (buf_height blank_buffer) halving_rng p
                  = pass_radiances 1000 dark_scene (sky_opts\<lparr>samples := 1\<rparr>)
                      (buf_width blank_buffer) (buf_height blank_buffer) halving_rng p
                  @ pass_radiances 1000 dark_scene (sky_opts\<lparr>samples := 2\<rparr>)
                      (buf_width blank_buffer) (buf_height blank_buffer) (sdrop 4 halving_rng) p"
    by (simp add: pass_radiances_def bw dark_scene_pass_1 dark_scene_pass_2 dark_scene_pass_3
        radiances_at_def)
  have nonneg: "(0::int) \<le> 1" by simp
  note acc = progressive_accumulation [OF p1 p2 p12 same nonneg]
  show ?thesis
  proof (intro conjI)
    show "dist_raytrace_scene_progressive 1000 dark_scene (sky_opts\<lparr>samples := 1\<rparr>)
        (blank_buffer, halving_rng) = Inr (foldl accumulate blank_buffer ?tr1, sdrop 4 halving_rng)"
      by (rule p1)
    show "(0::int) \<le> 1" by simp
    show "buf_samples (foldl accumulate blank_buffer ?tr1) (1, 0) = 1"
      by (simp add: accumulate_def blank_buffer_def)
    show "buf_accum (foldl accumulate blank_buffer ?tr1) (1, 0) = vec3f 1 2 3"
      by (simp add: accumulate_def blank_buffer_def zero3f_def zero_vec3f_def plus_vec3f_def)
    show "buf_accum (foldl accumulate (foldl accumulate blank_buffer ?tr1) ?tr2)
        = buf_accum (foldl accumulate blank_buffer ?tr12)"
      by (rule acc [THEN conjunct2, THEN conjunct2, THEN conjunct2, THEN conjunct1])
    show "buf_samples (foldl accumulate (foldl accumulate blank_buffer ?tr1) ?tr2)
        = buf_samples (foldl accumulate blank_buffer ?tr12)"
      by (rule acc [THEN conjunct2, THEN conjunct2, THEN conjunct2, THEN conjunct2])
  qed
qed

end
